theory Spec2Isabelle
  imports Main "HOL-Library.Sublist"
begin

section \<open>Python strings\<close>

text \<open>
  A Python \<open>str\<close> is a sequence of Unicode code points; \<open>len\<close>, slicing, \<open>in\<close> and the
  \<open>re\<close> module all count code points. A string is therefore a list of code points
  (natural numbers), not a list of bytes. ASCII literals of the source are written
  \<open>str ''...''\<close>; the few non-ASCII characters of the source are named constants.
\<close>

type_synonym uchar = nat
type_synonym ustring = "uchar list"

definition ch :: "char \<Rightarrow> uchar" where
  "ch c = of_char c"

definition str :: "string \<Rightarrow> ustring" where
  "str s = map ch s"

definition auml :: uchar where "auml = 228"   \<comment> \<open>U+00E4, a with diaeresis\<close>
definition ouml :: uchar where "ouml = 246"   \<comment> \<open>U+00F6, o with diaeresis\<close>
definition uuml :: uchar where "uuml = 252"   \<comment> \<open>U+00FC, u with diaeresis\<close>
definition szlig :: uchar where "szlig = 223" \<comment> \<open>U+00DF, sharp s\<close>
definition Auml :: uchar where "Auml = 196"   \<comment> \<open>U+00C4\<close>
definition Ouml :: uchar where "Ouml = 214"   \<comment> \<open>U+00D6\<close>
definition Uuml :: uchar where "Uuml = 220"   \<comment> \<open>U+00DC\<close>
definition ndash :: uchar where "ndash = 8211" \<comment> \<open>U+2013, en dash\<close>
definition euro :: uchar where "euro = 8364"  \<comment> \<open>U+20AC, euro sign\<close>

text \<open>
  The Unicode character database of the Python runtime is not part of the repository.
  The four tables the source consults are parameters of the model:
  \<open>lower\<close> is \<open>str.lower()\<close> (a function on whole strings: the mapping can change the
  length and depends on context), \<open>isspace\<close> is the whitespace test shared by
  \<open>str.strip()\<close> and the pattern escape \<open>\s\<close>, \<open>isdecimal\<close> is the pattern escape
  \<open>\d\<close>, and \<open>isdigit\<close> is \<open>str.isdigit()\<close>.
\<close>

record unicode_db =
  lower :: "ustring \<Rightarrow> ustring"
  isspace :: "uchar \<Rightarrow> bool"
  isdecimal :: "uchar \<Rightarrow> bool"
  isdigit :: "uchar \<Rightarrow> bool"

text \<open>
  The tables restricted to Basic Latin and Latin-1 (code points below 256), where they
  are small enough to write down; used to run the model on concrete texts.
\<close>

definition latin1_lower_char :: "uchar \<Rightarrow> uchar" where
  "latin1_lower_char c =
     (if (65 \<le> c \<and> c \<le> 90) \<or> (192 \<le> c \<and> c \<le> 222 \<and> c \<noteq> 215) then c + 32 else c)"

definition latin1_isspace :: "uchar \<Rightarrow> bool" where
  "latin1_isspace c \<longleftrightarrow> (9 \<le> c \<and> c \<le> 13) \<or> (28 \<le> c \<and> c \<le> 32) \<or> c = 133 \<or> c = 160"

definition latin1_isdecimal :: "uchar \<Rightarrow> bool" where
  "latin1_isdecimal c \<longleftrightarrow> 48 \<le> c \<and> c \<le> 57"

definition latin1_isdigit :: "uchar \<Rightarrow> bool" where
  "latin1_isdigit c \<longleftrightarrow> (48 \<le> c \<and> c \<le> 57) \<or> c = 178 \<or> c = 179 \<or> c = 185"

definition latin1 :: unicode_db where
  "latin1 = \<lparr> lower = map latin1_lower_char, isspace = latin1_isspace,
              isdecimal = latin1_isdecimal, isdigit = latin1_isdigit \<rparr>"

text \<open>\<open>s.strip()\<close>: leading and trailing whitespace removed.\<close>

definition strip :: "unicode_db \<Rightarrow> ustring \<Rightarrow> ustring" where
  "strip U s = rev (dropWhile (isspace U) (rev (dropWhile (isspace U) s)))"

section \<open>Skill matching\<close>

text \<open>
  \<open>extract_skills\<close> returns a dict with three fixed keys; the record's fields carry the
  prefix \<open>sk_\<close> because the profile has fields of the same names.
\<close>

record skills =
  sk_edv_kenntnisse :: "ustring list"
  sk_sonstige_techniken :: "ustring list"
  sk_sprachkenntnisse :: "ustring list"

definition it_skills :: "ustring list" where
  "it_skills = [str ''SAP'', str ''MS-Word'', str ''MS-Excel'', str ''MS-Outlook'',
                str ''Python'', str ''Java'', str ''SQL'', str ''HTML'', str ''CSS'']"

definition technical_skills :: "ustring list" where
  "technical_skills = [str ''Schienenfahrzeugbau'', str ''Dokumentation'',
                       str ''Koordination'', str ''Projektmanagement'']"

definition languages :: "ustring list" where
  "languages = [str ''Deutsch'', str ''Englisch'', str ''Franz'' @ [ouml] @ str ''sisch'',
                str ''Spanisch'', str ''Italienisch'']"

text \<open>
  One \<open>for skill in vocabulary: if skill.lower() in text_lower: result.append(skill)\<close>
  loop; \<open>acc\<close> is the list being appended to. Python's \<open>a in b\<close> on strings is the
  contiguous-substring test \<open>sublist a b\<close>.
\<close>

fun skill_loop :: "unicode_db \<Rightarrow> ustring \<Rightarrow> ustring list \<Rightarrow> ustring list \<Rightarrow> ustring list" where
  "skill_loop U text_lower [] acc = acc"
| "skill_loop U text_lower (skill # rest) acc =
     skill_loop U text_lower rest
       (if sublist (lower U skill) text_lower then acc @ [skill] else acc)"

definition extract_skills :: "unicode_db \<Rightarrow> ustring \<Rightarrow> skills" where
  "extract_skills U text =
     (let text_lower = lower U text in
      \<lparr> sk_edv_kenntnisse = skill_loop U text_lower it_skills [],
        sk_sonstige_techniken = skill_loop U text_lower technical_skills [],
        sk_sprachkenntnisse = skill_loop U text_lower languages [] \<rparr>)"

section \<open>Regular expressions\<close>

text \<open>
  The fragment of Python's \<open>re\<close> syntax the source's patterns are written in: a single
  character of a class (\<open>[...]\<close>, \<open>\d\<close>, \<open>\s\<close>), a literal, sequence, alternation,
  greedy repetition of a class (\<open>*\<close>, \<open>+\<close>, \<open>{m,n}\<close>) and a capturing group. The
  patterns have no anchors, look-around or back-references, so whether a match starts at
  a position depends only on the text from that position on. Groups of the source's
  patterns are never nested and never stand inside an alternative, so appending a group's
  text when the group closes lists the groups in their numbering order.
\<close>

datatype rx =
    Chars "uchar \<Rightarrow> bool"
  | Lit ustring
  | Seq rx rx
  | Alt rx rx
  | Rep "uchar \<Rightarrow> bool" nat "nat option"
  | Grp rx

abbreviation Star :: "(uchar \<Rightarrow> bool) \<Rightarrow> rx" where
  "Star P \<equiv> Rep P 0 None"

abbreviation Plus :: "(uchar \<Rightarrow> bool) \<Rightarrow> rx" where
  "Plus P \<equiv> Rep P 1 None"

abbreviation Times :: "(uchar \<Rightarrow> bool) \<Rightarrow> nat \<Rightarrow> nat \<Rightarrow> rx" where
  "Times P m n \<equiv> Rep P m (Some n)"

fun Seqs :: "rx list \<Rightarrow> rx" where
  "Seqs [] = Lit []"
| "Seqs [r] = r"
| "Seqs (r # rs) = Seq r (Seqs rs)"

fun Alts :: "rx list \<Rightarrow> rx" where
  "Alts [] = Chars (\<lambda>c. False)"
| "Alts [r] = r"
| "Alts (r # rs) = Alt r (Alts rs)"

text \<open>
  The backtracking matcher as a list of successes: every way the pattern can match a
  prefix of \<open>s\<close>, as the remaining text with the groups captured so far, in the order the
  backtracking engine tries them (left alternative first, longest repetition first). The
  engine returns the first one.
\<close>

fun rx_match :: "rx \<Rightarrow> ustring \<Rightarrow> ustring list \<Rightarrow> (ustring \<times> ustring list) list" where
  "rx_match (Chars P) s gs = (case s of [] \<Rightarrow> [] | c # cs \<Rightarrow> if P c then [(cs, gs)] else [])"
| "rx_match (Lit l) s gs = (if prefix l s then [(drop (length l) s, gs)] else [])"
| "rx_match (Seq a b) s gs = concat (map (\<lambda>(s', gs'). rx_match b s' gs') (rx_match a s gs))"
| "rx_match (Alt a b) s gs = rx_match a s gs @ rx_match b s gs"
| "rx_match (Rep P lo hi) s gs =
     (let n = length (takeWhile P s);
          mx = (case hi of None \<Rightarrow> n | Some h \<Rightarrow> min h n)
      in map (\<lambda>k. (drop k s, gs)) (rev [lo ..< Suc mx]))"
| "rx_match (Grp r) s gs =
     map (\<lambda>(s', gs'). (s', gs' @ [take (length s - length s') s])) (rx_match r s gs)"

text \<open>A match starting at the head of \<open>s\<close>: the matched text, its groups, the rest.\<close>

definition result_of :: "ustring \<Rightarrow> ustring \<times> ustring list \<Rightarrow> ustring \<times> ustring list \<times> ustring" where
  "result_of s x = (take (length s - length (fst x)) s, snd x, fst x)"

definition match_at :: "rx \<Rightarrow> ustring \<Rightarrow> (ustring \<times> ustring list \<times> ustring) option" where
  "match_at r s = (case rx_match r s [] of [] \<Rightarrow> None | x # _ \<Rightarrow> Some (result_of s x))"

text \<open>
  After an empty match the engine must advance: it takes the first way to match at the
  same position that consumes something.
\<close>

definition match_advancing :: "rx \<Rightarrow> ustring \<Rightarrow> (ustring \<times> ustring list \<times> ustring) option" where
  "match_advancing r s =
     map_option (result_of s) (find (\<lambda>x. length (fst x) < length s) (rx_match r s []))"

text \<open>
  The scan shared by \<open>re.findall\<close>, \<open>re.split\<close> and \<open>re.sub\<close>: the non-overlapping
  matches from left to right, with the characters between them.
\<close>

datatype tok = Chr uchar | Mat ustring "ustring list"

function scan :: "rx \<Rightarrow> ustring \<Rightarrow> tok list" where
  "scan r s =
     (case match_at r s of
        None \<Rightarrow> (case s of [] \<Rightarrow> [] | c # cs \<Rightarrow> Chr c # scan r cs)
      | Some (m, gs, rest) \<Rightarrow>
          if length rest < length s then Mat m gs # scan r rest
          else Mat m gs #
            (case match_advancing r s of
               Some (m', gs', rest') \<Rightarrow>
                 if length rest' < length s then Mat m' gs' # scan r rest'
                 else (case s of [] \<Rightarrow> [] | c # cs \<Rightarrow> Chr c # scan r cs)
             | None \<Rightarrow> (case s of [] \<Rightarrow> [] | c # cs \<Rightarrow> Chr c # scan r cs)))"
  by pat_completeness auto
termination
  by (relation "measure (\<lambda>(r, s). length s)") auto

declare scan.simps [simp del]

text \<open>
  \<open>re.findall\<close>: one item per match, the list of its groups (the whole match when the
  pattern has no group). For a pattern with two groups Python's item is the pair of them,
  for one group the group itself.
\<close>

fun findall_toks :: "tok list \<Rightarrow> ustring list list" where
  "findall_toks [] = []"
| "findall_toks (Chr c # ts) = findall_toks ts"
| "findall_toks (Mat m gs # ts) = (if gs = [] then [m] else gs) # findall_toks ts"

definition re_findall :: "rx \<Rightarrow> ustring \<Rightarrow> ustring list list" where
  "re_findall r s = findall_toks (scan r s)"

text \<open>\<open>re.split\<close>: the pieces between the matches (and the groups of each match).\<close>

fun split_toks :: "tok list \<Rightarrow> ustring \<Rightarrow> ustring list" where
  "split_toks [] cur = [cur]"
| "split_toks (Chr c # ts) cur = split_toks ts (cur @ [c])"
| "split_toks (Mat m gs # ts) cur = cur # gs @ split_toks ts []"

definition re_split :: "rx \<Rightarrow> ustring \<Rightarrow> ustring list" where
  "re_split r s = split_toks (scan r s) []"

text \<open>\<open>re.sub\<close> with a replacement that has no group reference.\<close>

fun sub_toks :: "ustring \<Rightarrow> tok list \<Rightarrow> ustring" where
  "sub_toks repl [] = []"
| "sub_toks repl (Chr c # ts) = c # sub_toks repl ts"
| "sub_toks repl (Mat m gs # ts) = repl @ sub_toks repl ts"

definition re_sub :: "rx \<Rightarrow> ustring \<Rightarrow> ustring \<Rightarrow> ustring" where
  "re_sub r repl s = sub_toks repl (scan r s)"

section \<open>Work experience and education\<close>

text \<open>
  The two patterns of \<open>extract_work_experience\<close>. The date pattern is
  \<^verbatim>\<open>(\d{1,2}\/\d{4}|\d{4})\s*[-N]\s*(\d{1,2}\/\d{4}|\d{4}|dato|heute)\<close>
  where \<open>N\<close> stands for the en dash U+2013. The company pattern is
  \<^verbatim>\<open>([A-ZXYZX][a-zxyzs\s&,.-]+(?:AG|GmbH|KG|e\.V\.|Inc\.|Ltd\.|Co\.))\<close>
  where \<open>XYZX\<close> stands for the capital umlauts U+00C4, U+00D6, U+00DC and U+00C4 again, and
  \<open>xyzs\<close> for the small umlauts U+00E4, U+00F6, U+00FC and the sharp s U+00DF.
\<close>

definition dash :: "uchar \<Rightarrow> bool" where
  "dash c \<longleftrightarrow> c = ch CHR ''-'' \<or> c = ndash"

definition date_pattern :: "unicode_db \<Rightarrow> rx" where
  "date_pattern U =
     Seqs [Grp (Alts [Seqs [Times (isdecimal U) 1 2, Lit (str ''/''), Times (isdecimal U) 4 4],
                      Times (isdecimal U) 4 4]),
           Star (isspace U), Chars dash, Star (isspace U),
           Grp (Alts [Seqs [Times (isdecimal U) 1 2, Lit (str ''/''), Times (isdecimal U) 4 4],
                      Times (isdecimal U) 4 4, Lit (str ''dato''), Lit (str ''heute'')])]"

definition company_first :: "uchar \<Rightarrow> bool" where
  "company_first c \<longleftrightarrow>
     (ch CHR ''A'' \<le> c \<and> c \<le> ch CHR ''Z'') \<or> c = Auml \<or> c = Ouml \<or> c = Uuml \<or> c = Auml"

definition company_body :: "unicode_db \<Rightarrow> uchar \<Rightarrow> bool" where
  "company_body U c \<longleftrightarrow>
     (ch CHR ''a'' \<le> c \<and> c \<le> ch CHR ''z'') \<or> c = auml \<or> c = ouml \<or> c = uuml \<or> c = szlig \<or>
     isspace U c \<or> c = ch CHR ''&'' \<or> c = ch CHR '','' \<or> c = ch CHR ''.'' \<or> c = ch CHR ''-''"

definition company_pattern :: "unicode_db \<Rightarrow> rx" where
  "company_pattern U =
     Grp (Seqs [Chars company_first, Plus (company_body U),
                Alts [Lit (str ''AG''), Lit (str ''GmbH''), Lit (str ''KG''), Lit (str ''e.V.''),
                      Lit (str ''Inc.''), Lit (str ''Ltd.''), Lit (str ''Co.'')]])"

text \<open>\<open>r'\n\s*\n'\<close>, the pattern both extractors split the text on.\<close>

definition newline :: uchar where
  "newline = 10"

definition blank_line :: "unicode_db \<Rightarrow> rx" where
  "blank_line U = Seqs [Lit [newline], Star (isspace U), Lit [newline]]"

definition sections :: "unicode_db \<Rightarrow> ustring \<Rightarrow> ustring list" where
  "sections U text = re_split (blank_line U) text"

record experience =
  exp_period :: ustring
  exp_company :: ustring
  exp_description :: ustring

definition experience_keywords :: "ustring list" where
  "experience_keywords =
     [str ''erfahrung'', str ''t'' @ [auml] @ str ''tigkeit'', str ''position'', str ''stelle'']"

text \<open>
  The body of the \<open>for section in sections\<close> loop of \<open>extract_work_experience\<close>, with
  the list \<open>experiences\<close> passed through. \<open>dates[0][0]\<close> and \<open>dates[0][1]\<close> are the two
  groups of the first match, \<open>companies[0]\<close> the one group of the first match.
\<close>

definition experience_step :: "unicode_db \<Rightarrow> experience list \<Rightarrow> ustring \<Rightarrow> experience list" where
  "experience_step U experiences section =
     (if list_ex (\<lambda>keyword. sublist keyword (lower U section)) experience_keywords then
        (let dates = re_findall (date_pattern U) section;
             companies = re_findall (company_pattern U) section
         in if dates \<noteq> [] \<and> companies \<noteq> [] then
              experiences @
                [\<lparr> exp_period = (hd dates ! 0) @ str '' - '' @ (hd dates ! 1),
                   exp_company = hd companies ! 0,
                   exp_description = strip U section \<rparr>]
            else experiences)
      else experiences)"

fun experience_loop :: "unicode_db \<Rightarrow> ustring list \<Rightarrow> experience list \<Rightarrow> experience list" where
  "experience_loop U [] experiences = experiences"
| "experience_loop U (section # rest) experiences =
     experience_loop U rest (experience_step U experiences section)"

definition extract_work_experience :: "unicode_db \<Rightarrow> ustring \<Rightarrow> experience list" where
  "extract_work_experience U text = experience_loop U (sections U text) []"

text \<open>
  \<open>extract_education\<close>, with the date pattern
  \<^verbatim>\<open>(\d{4})\s*[-N]\s*(\d{4}|dato|heute)\<close> (\<open>N\<close> the en dash).
\<close>

definition education_date_pattern :: "unicode_db \<Rightarrow> rx" where
  "education_date_pattern U =
     Seqs [Grp (Times (isdecimal U) 4 4), Star (isspace U), Chars dash, Star (isspace U),
           Grp (Alts [Times (isdecimal U) 4 4, Lit (str ''dato''), Lit (str ''heute'')])]"

record education_entry =
  edu_period :: ustring
  edu_institution :: ustring
  edu_degree :: ustring
  edu_description :: ustring

definition education_keywords :: "ustring list" where
  "education_keywords =
     [str ''ausbildung'', str ''studium'', str ''weiterbildung'', str ''abschluss'',
      str ''universit'' @ [auml] @ str ''t'', str ''hochschule'', str ''schule'']"

definition education_step :: "unicode_db \<Rightarrow> education_entry list \<Rightarrow> ustring \<Rightarrow> education_entry list" where
  "education_step U education section =
     (if list_ex (\<lambda>keyword. sublist keyword (lower U section)) education_keywords then
        (let dates = re_findall (education_date_pattern U) section
         in education @
              [\<lparr> edu_period = (if dates \<noteq> [] then (hd dates ! 0) @ str '' - '' @ (hd dates ! 1) else []),
                 edu_institution = [],
                 edu_degree = [],
                 edu_description = strip U section \<rparr>])
      else education)"

fun education_loop :: "unicode_db \<Rightarrow> ustring list \<Rightarrow> education_entry list \<Rightarrow> education_entry list" where
  "education_loop U [] education = education"
| "education_loop U (section # rest) education =
     education_loop U rest (education_step U education section)"

definition extract_education :: "unicode_db \<Rightarrow> ustring \<Rightarrow> education_entry list" where
  "extract_education U text = education_loop U (sections U text) []"

section \<open>The processor and its two capabilities\<close>

text \<open>
  A raised Python exception, as its class name and message, in two kinds: \<open>Exception\<close>
  is an instance of a class derived from \<open>Exception\<close> (what \<open>except Exception\<close>
  catches), \<open>BaseException\<close> an instance of a class derived from \<open>BaseException\<close> only
  (\<open>KeyboardInterrupt\<close>, \<open>SystemExit\<close>, \<open>GeneratorExit\<close>), which
  \<open>except Exception\<close> lets through. The two transformer pipelines are
  external: a pipeline is a function that returns a value or raises. \<open>CVProcessor\<close>
  holds each pipeline or \<open>None\<close>. The NER pipeline returns a list of dicts, of which the
  source reads the string-valued keys \<open>word\<close> and \<open>entity_group\<close>; the summarizer is
  called with the text, \<open>max_length\<close>, \<open>min_length\<close> and \<open>do_sample\<close> and returns a list of
  dicts, of which the source reads \<open>summary[0]['summary_text']\<close>. What the source prints
  is not modelled.
\<close>

datatype exn = Exception string string | BaseException string string

type_synonym entity = "string \<rightharpoonup> ustring"

record cv_processor =
  ner_pipeline :: "(ustring \<Rightarrow> exn + entity list) option"
  summarizer :: "(ustring \<Rightarrow> nat \<Rightarrow> nat \<Rightarrow> bool \<Rightarrow> exn + (string \<rightharpoonup> ustring) list) option"

definition SUMMARY_MAX_LENGTH :: nat where
  "SUMMARY_MAX_LENGTH = 150"

definition SUMMARY_MIN_LENGTH :: nat where
  "SUMMARY_MIN_LENGTH = 40"

definition extract_entities :: "cv_processor \<Rightarrow> ustring \<Rightarrow> exn + entity list" where
  "extract_entities self text =
     (case ner_pipeline self of
        None \<Rightarrow> Inl (Exception ''ValueError'' ''NER pipeline not loaded'')
      | Some pipeline \<Rightarrow>
          (case pipeline text of
             Inr entities \<Rightarrow> Inr entities
           | Inl e \<Rightarrow>
               (case e of
                  Exception cls msg \<Rightarrow> Inr []
                | BaseException cls msg \<Rightarrow> Inl e)))"

definition summary_fallback :: ustring where
  "summary_fallback = str ''Zusammenfassung konnte nicht erstellt werden.''"

text \<open>
  \<open>summarize_text\<close>. The \<open>try\<close> block also covers \<open>summary[0]['summary_text']\<close>, so an
  empty result list (IndexError) or a missing key (KeyError), both derived from
  \<open>Exception\<close>, ends in the fallback too.
\<close>

definition summarize_text :: "cv_processor \<Rightarrow> ustring \<Rightarrow> exn + ustring" where
  "summarize_text self text =
     (case summarizer self of
        None \<Rightarrow> Inl (Exception ''ValueError'' ''Summarizer pipeline not loaded'')
      | Some pipeline \<Rightarrow>
          (let max_input_length = 1024;
               text' = (if length text > max_input_length then take max_input_length text else text)
           in case pipeline text' SUMMARY_MAX_LENGTH SUMMARY_MIN_LENGTH False of
                Inl e \<Rightarrow>
                  (case e of
                     Exception cls msg \<Rightarrow> Inr summary_fallback
                   | BaseException cls msg \<Rightarrow> Inl e)
              | Inr summary \<Rightarrow>
                  (case summary of
                     [] \<Rightarrow> Inr summary_fallback
                   | d # _ \<Rightarrow>
                       (case d ''summary_text'' of
                          None \<Rightarrow> Inr summary_fallback
                        | Some t \<Rightarrow> Inr t))))"

section \<open>Identity resolution\<close>

text \<open>
  \<open>_is_phone_number\<close>: \<open>re.sub(r'[-\s()]', '', text)\<close>, then the length and digit-share
  test. The source compares the digit count with the float \<open>len(clean_text) * 0.7\<close>; the
  comparison is reached only for lengths 7 to 15, where the float product is never above
  the exact one and is below it by less than one unit in the last place, so for an integer
  count it is the exact comparison \<open>7 * len \<le> 10 * count\<close>.
\<close>

definition phone_separator :: "unicode_db \<Rightarrow> uchar \<Rightarrow> bool" where
  "phone_separator U c \<longleftrightarrow>
     c = ch CHR ''-'' \<or> isspace U c \<or> c = ch CHR ''('' \<or> c = ch CHR '')''"

definition is_phone_number :: "unicode_db \<Rightarrow> ustring \<Rightarrow> bool" where
  "is_phone_number U text =
     (let clean_text = re_sub (Chars (phone_separator U)) [] text
      in length clean_text \<ge> 7 \<and> length clean_text \<le> 15 \<and>
         10 * length (filter (isdigit U) clean_text) \<ge> 7 * length clean_text)"

text \<open>\<open>d.get(key, default)\<close>.\<close>

definition dict_get :: "('k \<rightharpoonup> 'v) \<Rightarrow> 'k \<Rightarrow> 'v \<Rightarrow> 'v" where
  "dict_get d k dflt = (case d k of None \<Rightarrow> dflt | Some v \<Rightarrow> v)"

text \<open>
  The body of the \<open>for entity in ner_results\<close> loop; the state is the three local
  variables \<open>(name, email, phone)\<close>. \<open>not name\<close> on a string is \<open>name = ''\<close>.
\<close>

fun identity_step :: "unicode_db \<Rightarrow> ustring \<times> ustring \<times> ustring \<Rightarrow> entity \<Rightarrow> ustring \<times> ustring \<times> ustring" where
  "identity_step U (name, email, phone) entity =
     (let entity_text = dict_get entity ''word'' [];
          entity_group = dict_get entity ''entity_group'' []
      in if entity_group = str ''PER'' \<and> name = [] then (entity_text, email, phone)
         else if entity_group = str ''MISC'' \<and> sublist (str ''@'') entity_text \<and> email = []
           then (name, entity_text, phone)
         else if entity_group = str ''MISC'' \<and> is_phone_number U entity_text \<and> phone = []
           then (name, email, entity_text)
         else (name, email, phone))"

fun identity_loop :: "unicode_db \<Rightarrow> entity list \<Rightarrow> ustring \<times> ustring \<times> ustring \<Rightarrow> ustring \<times> ustring \<times> ustring" where
  "identity_loop U [] st = st"
| "identity_loop U (entity # rest) st = identity_loop U rest (identity_step U st entity)"

section \<open>Assembling the profile\<close>

record profile =
  job_title :: ustring
  einkaufskurzprofil :: ustring
  stundenverrechnungssatz :: ustring
  starttermin :: ustring
  name :: ustring
  email :: ustring
  phone :: ustring
  berufserfahrung :: "experience list"
  ausbildung :: "education_entry list"
  edv_kenntnisse :: "ustring list"
  sonstige_techniken :: "ustring list"
  sprachkenntnisse :: "ustring list"
  summary :: ustring
  zusaetzliche_bemerkungen :: ustring

definition get_empty_template :: profile where
  "get_empty_template =
     \<lparr> job_title = [], einkaufskurzprofil = [], stundenverrechnungssatz = [euro],
       starttermin = [], name = [], email = [], phone = [],
       berufserfahrung = [], ausbildung = [],
       edv_kenntnisse = [], sonstige_techniken = [], sprachkenntnisse = [],
       summary = [], zusaetzliche_bemerkungen = [] \<rparr>"

text \<open>
  \<open>CVProcessor.extract_candidate_data\<close>. \<open>today\<close> is what
  \<open>datetime.now().strftime('%d.%m.%Y')\<close> evaluates to during the call: the clock is an
  input. An exception of \<open>extract_entities\<close> or \<open>summarize_text\<close> leaves the method at
  that point.
\<close>

definition extract_candidate_data :: "unicode_db \<Rightarrow> cv_processor \<Rightarrow> ustring \<Rightarrow> ustring \<Rightarrow> exn + profile" where
  "extract_candidate_data U self today raw_text =
     (if raw_text = [] \<or> strip U raw_text = [] then Inr get_empty_template
      else
        (case extract_entities self raw_text of
           Inl e \<Rightarrow> Inl e
         | Inr ner_results \<Rightarrow>
             (case identity_loop U ner_results ([], [], []) of
                (name', email', phone') \<Rightarrow>
                  (let work_experience = extract_work_experience U raw_text;
                       education = extract_education U raw_text;
                       skills = extract_skills U raw_text
                   in case summarize_text self raw_text of
                        Inl e \<Rightarrow> Inl e
                      | Inr summary' \<Rightarrow>
                          Inr \<lparr> job_title = str ''SAP Meister/Techniker'',
                                einkaufskurzprofil = str ''X|YYY|XXX|Z'',
                                stundenverrechnungssatz = [euro],
                                starttermin = str ''01.04.2025'',
                                name = name', email = email', phone = phone',
                                berufserfahrung = work_experience,
                                ausbildung = education,
                                edv_kenntnisse = sk_edv_kenntnisse skills,
                                sonstige_techniken = sk_sonstige_techniken skills,
                                sprachkenntnisse = sk_sprachkenntnisse skills,
                                summary = summary',
                                zusaetzliche_bemerkungen =
                                  str ''Profil automatisch generiert am '' @ today \<rparr>))))"

section \<open>The defaulting layer of the application\<close>

text \<open>
  \<open>generate_profile_from_text\<close> of the application, which calls the processor, fills
  empty header fields from the configuration's defaults, and adds the keys
  \<open>referenzen\<close> and \<open>zertifikate\<close> when the caller gave them.
\<close>

definition DEFAULT_JOB_TITLE :: ustring where
  "DEFAULT_JOB_TITLE = str ''SAP Meister/Techniker''"

definition DEFAULT_EKP :: ustring where
  "DEFAULT_EKP = str ''X|YYY|XXX|Z''"

definition DEFAULT_SVS :: ustring where
  "DEFAULT_SVS = [euro]"

definition DEFAULT_START_DATE :: ustring where
  "DEFAULT_START_DATE = str ''01.04.2025''"

record app_profile = profile +
  referenzen :: "ustring option"
  zertifikate :: "ustring option"

definition fill_defaults :: "profile \<Rightarrow> profile" where
  "fill_defaults extracted_data =
     (let d1 = (if job_title extracted_data = []
                then extracted_data\<lparr>job_title := DEFAULT_JOB_TITLE\<rparr> else extracted_data);
          d2 = (if einkaufskurzprofil d1 = [] then d1\<lparr>einkaufskurzprofil := DEFAULT_EKP\<rparr> else d1);
          d3 = (if stundenverrechnungssatz d2 = []
                then d2\<lparr>stundenverrechnungssatz := DEFAULT_SVS\<rparr> else d2);
          d4 = (if starttermin d3 = [] then d3\<lparr>starttermin := DEFAULT_START_DATE\<rparr> else d3)
      in d4)"

definition format_remarks :: "ustring \<Rightarrow> ustring \<Rightarrow> ustring \<Rightarrow> ustring" where
  "format_remarks remarks references certificates =
     (if references \<noteq> [] \<or> certificates \<noteq> [] then
        remarks @ [newline, newline] @ str ''Zus'' @ [auml] @ str ''tzliche Informationen:'' @ [newline]
          @ (if references \<noteq> [] then str ''- Referenzen: '' @ references @ [newline] else [])
          @ (if certificates \<noteq> [] then str ''- Zertifikate: '' @ certificates @ [newline] else [])
      else remarks)"

definition generate_profile_from_text ::
    "unicode_db \<Rightarrow> cv_processor \<Rightarrow> ustring \<Rightarrow> ustring \<Rightarrow> ustring \<Rightarrow> ustring \<Rightarrow> exn + app_profile" where
  "generate_profile_from_text U self today cv_text references certificates =
     (case extract_candidate_data U self today cv_text of
        Inl e \<Rightarrow> Inl e
      | Inr extracted_data \<Rightarrow>
          (let d = fill_defaults extracted_data
           in Inr (profile.extend
                     (d\<lparr>zusaetzliche_bemerkungen :=
                          format_remarks (zusaetzliche_bemerkungen d) references certificates\<rparr>)
                     (app_profile.fields
                        (if references \<noteq> [] then Some references else None)
                        (if certificates \<noteq> [] then Some certificates else None)))))"

section \<open>Vocabulary for stating the extraction claims\<close>

text \<open>
  \<open>re.search\<close>: the leftmost position at which the pattern matches, with the item
  \<open>re.findall\<close> would report for that match. It is what the claims call the first
  match of a pattern in a block.
\<close>

fun re_search :: "rx \<Rightarrow> ustring \<Rightarrow> ustring list option" where
  "re_search r [] =
     (case match_at r [] of
        Some (m, gs, rest) \<Rightarrow> Some (if gs = [] then [m] else gs)
      | None \<Rightarrow> None)"
| "re_search r (c # cs) =
     (case match_at r (c # cs) of
        Some (m, gs, rest) \<Rightarrow> Some (if gs = [] then [m] else gs)
      | None \<Rightarrow> re_search r cs)"

text \<open>
  The number of groups of a pattern, and the patterns every match of which fills all of
  them (both sides of an alternative have the same number).
\<close>

fun ngroups :: "rx \<Rightarrow> nat" where
  "ngroups (Chars P) = 0"
| "ngroups (Lit l) = 0"
| "ngroups (Seq a b) = ngroups a + ngroups b"
| "ngroups (Alt a b) = ngroups a"
| "ngroups (Rep P lo hi) = 0"
| "ngroups (Grp r) = Suc (ngroups r)"

fun uniform :: "rx \<Rightarrow> bool" where
  "uniform (Seq a b) \<longleftrightarrow> uniform a \<and> uniform b"
| "uniform (Alt a b) \<longleftrightarrow> uniform a \<and> uniform b \<and> ngroups a = ngroups b"
| "uniform (Grp r) \<longleftrightarrow> uniform r"
| "uniform r \<longleftrightarrow> True"

text \<open>The least number of characters a match of a pattern consumes.\<close>

fun min_len :: "rx \<Rightarrow> nat" where
  "min_len (Chars P) = 1"
| "min_len (Lit l) = length l"
| "min_len (Seq a b) = min_len a + min_len b"
| "min_len (Alt a b) = min (min_len a) (min_len b)"
| "min_len (Rep P lo hi) = lo"
| "min_len (Grp r) = min_len r"

text \<open>
  The two sides of the first date range of a block, and the first organization name of a
  block.
\<close>

definition first_date_range :: "rx \<Rightarrow> ustring \<Rightarrow> (ustring \<times> ustring) option" where
  "first_date_range r block = map_option (\<lambda>g. (g ! 0, g ! 1)) (re_search r block)"

definition first_company :: "unicode_db \<Rightarrow> ustring \<Rightarrow> ustring option" where
  "first_company U block = map_option (\<lambda>g. g ! 0) (re_search (company_pattern U) block)"

text \<open>
  The entry claim C3 describes for one block: present when the block contains an
  experience keyword (in its lowercased text), a date range and an organization name.
\<close>

definition spec_experience_entry :: "unicode_db \<Rightarrow> ustring \<Rightarrow> experience option" where
  "spec_experience_entry U block =
     (if \<exists>keyword \<in> set experience_keywords. sublist keyword (lower U block) then
        (case first_date_range (date_pattern U) block of
           None \<Rightarrow> None
         | Some (left, right) \<Rightarrow>
             (case first_company U block of
                None \<Rightarrow> None
              | Some company \<Rightarrow>
                  Some \<lparr> exp_period = left @ str '' - '' @ right,
                         exp_company = company,
                         exp_description = strip U block \<rparr>))
      else None)"

text \<open>
  The entry claim C4 describes for one block: present when the block contains an
  education keyword, whatever else it contains.
\<close>

definition spec_education_entry :: "unicode_db \<Rightarrow> ustring \<Rightarrow> education_entry option" where
  "spec_education_entry U block =
     (if \<exists>keyword \<in> set education_keywords. sublist keyword (lower U block) then
        Some \<lparr> edu_period =
                 (case first_date_range (education_date_pattern U) block of
                    None \<Rightarrow> []
                  | Some (left, right) \<Rightarrow> left @ str '' - '' @ right),
               edu_institution = [],
               edu_degree = [],
               edu_description = strip U block \<rparr>
      else None)"

section \<open>Vocabulary for stating the identity claims\<close>

text \<open>
  The words of the claims about identity resolution, as predicates on the entities the
  recognizer returns: the text of an entity, an entity tagged as a person, a
  miscellaneous entity whose text contains the at sign, a miscellaneous entity whose text
  passes the phone test, the text of the first entity of a kind (empty when there is
  none), and a list without its first entity of a kind.
\<close>

definition entity_word :: "entity \<Rightarrow> ustring" where
  "entity_word e = dict_get e ''word'' []"

definition person_entity :: "entity \<Rightarrow> bool" where
  "person_entity e \<longleftrightarrow> dict_get e ''entity_group'' [] = str ''PER''"

definition email_entity :: "entity \<Rightarrow> bool" where
  "email_entity e \<longleftrightarrow>
     dict_get e ''entity_group'' [] = str ''MISC'' \<and> sublist (str ''@'') (entity_word e)"

definition phone_entity :: "unicode_db \<Rightarrow> entity \<Rightarrow> bool" where
  "phone_entity U e \<longleftrightarrow>
     dict_get e ''entity_group'' [] = str ''MISC'' \<and> is_phone_number U (entity_word e)"

definition first_word :: "(entity \<Rightarrow> bool) \<Rightarrow> entity list \<Rightarrow> ustring" where
  "first_word P entities = (case find P entities of None \<Rightarrow> [] | Some e \<Rightarrow> entity_word e)"

fun without_first :: "('a \<Rightarrow> bool) \<Rightarrow> 'a list \<Rightarrow> 'a list" where
  "without_first P [] = []"
| "without_first P (x # xs) = (if P x then xs else x # without_first P xs)"

text \<open>
  Identity resolution as claim C6 words it: each field from the first entity of its kind.
\<close>

definition first_of_each_kind :: "unicode_db \<Rightarrow> entity list \<Rightarrow> ustring \<times> ustring \<times> ustring" where
  "first_of_each_kind U entities =
     (first_word person_entity entities,
      first_word email_entity entities,
      first_word (phone_entity U) entities)"

section \<open>Sample capabilities\<close>

text \<open>A recognizer that raises on every call, and one that finds nothing.\<close>

definition failing_recognizer :: "ustring \<Rightarrow> exn + entity list" where
  "failing_recognizer t = Inl (Exception ''RuntimeError'' ''inference failed'')"

definition silent_recognizer :: "ustring \<Rightarrow> exn + entity list" where
  "silent_recognizer t = Inr []"

text \<open>Two texts of three blocks each.\<close>

definition sample_cv :: ustring where
  "sample_cv = str ''Erfahrung 2019 - 2021 Beispiel GmbH'' @ [newline, newline]
     @ str ''Position 2015 - 2016 Nichts'' @ [newline, newline]
     @ str ''Stelle 03/2021-heute Muster AG'' @ [newline]"

definition sample_education :: ustring where
  "sample_education = str ''Studium Informatik'' @ [newline, newline]
     @ str ''Hobby: Lesen'' @ [newline, newline]
     @ str ''Hochschule 03/2019 - 2021''"

definition mk_entity :: "string \<Rightarrow> string \<Rightarrow> entity" where
  "mk_entity g w = [''entity_group'' \<mapsto> str g, ''word'' \<mapsto> str w]"

definition sample_entities :: "entity list" where
  "sample_entities =
     [mk_entity ''PER'' ''Max Mustermann'', mk_entity ''MISC'' ''max@firma.de'',
      mk_entity ''MISC'' ''+49 176 1234567'', mk_entity ''PER'' ''Erika Musterfrau'',
      mk_entity ''MISC'' ''01761234567@web'']"

text \<open>A summarizer that raises on every call, and one that echoes the text it is given.\<close>

definition failing_summarizer :: "ustring \<Rightarrow> nat \<Rightarrow> nat \<Rightarrow> bool \<Rightarrow> exn + (string \<rightharpoonup> ustring) list" where
  "failing_summarizer t mx mn sample = Inl (Exception ''RuntimeError'' ''out of memory'')"

definition echo_summarizer :: "ustring \<Rightarrow> nat \<Rightarrow> nat \<Rightarrow> bool \<Rightarrow> exn + (string \<rightharpoonup> ustring) list" where
  "echo_summarizer t mx mn sample = Inr [[''summary_text'' \<mapsto> t]]"

section \<open>Skill matching: properties\<close>

lemma skill_loop_filter:
  "skill_loop U t vocab acc = acc @ filter (\<lambda>skill. sublist (lower U skill) t) vocab"
  by (induction vocab arbitrary: acc) simp_all

lemma distinct_it_skills: "distinct it_skills"
  by (simp add: it_skills_def str_def ch_def)

lemma distinct_technical_skills: "distinct technical_skills"
  by (simp add: technical_skills_def str_def ch_def)

lemma distinct_languages: "distinct languages"
  by (simp add: languages_def str_def ch_def ouml_def)

text \<open>
  Claim C5. For each of the three fixed vocabularies, the result list of its category is
  the vocabulary filtered by the test "the lowercased term is a substring of the
  lowercased text": a vocabulary term is in the result if and only if it passes the test
  (nothing about word boundaries enters), the result has no duplicates, holds only
  vocabulary terms, and lists them in the vocabulary's order.
\<close>

theorem extract_skills_spec:
  "sk_edv_kenntnisse (extract_skills U text)
     = filter (\<lambda>skill. sublist (lower U skill) (lower U text)) it_skills
   \<and> sk_sonstige_techniken (extract_skills U text)
     = filter (\<lambda>skill. sublist (lower U skill) (lower U text)) technical_skills
   \<and> sk_sprachkenntnisse (extract_skills U text)
     = filter (\<lambda>skill. sublist (lower U skill) (lower U text)) languages
   \<and> (\<forall>skill \<in> set it_skills.
        skill \<in> set (sk_edv_kenntnisse (extract_skills U text))
          \<longleftrightarrow> sublist (lower U skill) (lower U text))
   \<and> (\<forall>skill \<in> set technical_skills.
        skill \<in> set (sk_sonstige_techniken (extract_skills U text))
          \<longleftrightarrow> sublist (lower U skill) (lower U text))
   \<and> (\<forall>skill \<in> set languages.
        skill \<in> set (sk_sprachkenntnisse (extract_skills U text))
          \<longleftrightarrow> sublist (lower U skill) (lower U text))
   \<and> distinct (sk_edv_kenntnisse (extract_skills U text))
   \<and> distinct (sk_sonstige_techniken (extract_skills U text))
   \<and> distinct (sk_sprachkenntnisse (extract_skills U text))
   \<and> set (sk_edv_kenntnisse (extract_skills U text)) \<subseteq> set it_skills
   \<and> set (sk_sonstige_techniken (extract_skills U text)) \<subseteq> set technical_skills
   \<and> set (sk_sprachkenntnisse (extract_skills U text)) \<subseteq> set languages
   \<and> subseq (sk_edv_kenntnisse (extract_skills U text)) it_skills
   \<and> subseq (sk_sonstige_techniken (extract_skills U text)) technical_skills
   \<and> subseq (sk_sprachkenntnisse (extract_skills U text)) languages"
  using distinct_it_skills distinct_technical_skills distinct_languages
  by (simp add: extract_skills_def Let_def skill_loop_filter)

text \<open>
  The vocabulary term \<open>SAP\<close> is found inside the longer word \<open>SAPPHIRE\<close>.
\<close>

theorem extract_skills_spec_witness:
  "str ''SAP'' \<in> set it_skills
   \<and> sublist (lower latin1 (str ''SAP'')) (lower latin1 (str ''Mein SAPPHIRE-Ring''))
   \<and> str ''SAP'' \<in> set (sk_edv_kenntnisse (extract_skills latin1 (str ''Mein SAPPHIRE-Ring'')))"
proof -
  have m: "str ''SAP'' \<in> set it_skills"
    by (simp add: it_skills_def)
  have s: "sublist (lower latin1 (str ''SAP'')) (lower latin1 (str ''Mein SAPPHIRE-Ring''))"
    by code_simp
  from extract_skills_spec [of latin1 "str ''Mein SAPPHIRE-Ring''"] m s show ?thesis
    by blast
qed

lemma skills_example:
  "extract_skills latin1 (str ''Ich nutze SAP und Python bei Projektmanagement, SAP und Python'')
     = \<lparr> sk_edv_kenntnisse = [str ''SAP'', str ''Python''],
         sk_sonstige_techniken = [str ''Projektmanagement''],
         sk_sprachkenntnisse = [] \<rparr>"
  by code_simp

section \<open>Blank input\<close>

lemma all_dropWhile_iff: "(\<forall>x\<in>set (dropWhile P s). P x) \<longleftrightarrow> (\<forall>c\<in>set s. P c)"
  by (induction s) auto

lemma strip_empty_iff: "strip U s = [] \<longleftrightarrow> (\<forall>c\<in>set s. isspace U c)"
  by (simp add: strip_def all_dropWhile_iff)

text \<open>
  Claim C2. When every character of the input is whitespace (the empty input included),
  \<open>extract_candidate_data\<close> returns the empty template: every list field empty, every
  string field empty except \<open>stundenverrechnungssatz\<close>, which is the euro sign. This holds
  for every processor, also one whose pipelines are missing or would raise, and for every
  date: neither capability nor any extractor contributes to the result.
\<close>

theorem blank_input_empty_template:
  assumes "\<forall>c\<in>set raw_text. isspace U c"
  shows "extract_candidate_data U self today raw_text =
           Inr \<lparr> job_title = [], einkaufskurzprofil = [], stundenverrechnungssatz = [euro],
                 starttermin = [], name = [], email = [], phone = [],
                 berufserfahrung = [], ausbildung = [],
                 edv_kenntnisse = [], sonstige_techniken = [], sprachkenntnisse = [],
                 summary = [], zusaetzliche_bemerkungen = [] \<rparr>"
proof -
  from assms have "strip U raw_text = []"
    by (simp add: strip_empty_iff)
  then show ?thesis
    by (simp add: extract_candidate_data_def get_empty_template_def)
qed

theorem blank_input_empty_template_witness:
  "list_all (isspace latin1) [32, 10, 9, 32] \<and>
   extract_candidate_data latin1 \<lparr>ner_pipeline = None, summarizer = None\<rparr>
       (str ''03.11.2026'') [32, 10, 9, 32] =
     Inr \<lparr> job_title = [], einkaufskurzprofil = [], stundenverrechnungssatz = [8364],
           starttermin = [], name = [], email = [], phone = [],
           berufserfahrung = [], ausbildung = [],
           edv_kenntnisse = [], sonstige_techniken = [], sprachkenntnisse = [],
           summary = [], zusaetzliche_bemerkungen = [] \<rparr>"
proof -
  have h: "\<forall>c\<in>set ([32, 10, 9, 32]::ustring). isspace latin1 c"
    by (simp add: latin1_def latin1_isspace_def)
  from blank_input_empty_template [OF h] h show ?thesis
    by (simp add: euro_def list_all_iff)
qed

section \<open>The summarizer adapter\<close>

lemma summarize_text_propagates:
  assumes "summarizer self = Some pipeline"
      and "pipeline (take 1024 text) 150 40 False = Inl (BaseException cls msg)"
  shows "summarize_text self text = Inl (BaseException cls msg)"
proof -
  have t: "(if length text > 1024 then take 1024 text else text) = take 1024 text"
    by simp
  show ?thesis using assms
    by (simp add: summarize_text_def Let_def t SUMMARY_MAX_LENGTH_def SUMMARY_MIN_LENGTH_def)
qed

text \<open>
  Claim C7. With a summarizer loaded, \<open>summarize_text\<close> calls the summarizer on the
  first 1024 characters of the text (the whole text when it is shorter) with maximum
  length 150, minimum length 40 and sampling off, and its result depends on the
  summarizer only through that one call. When the call raises an error (an exception of
  a class derived from \<open>Exception\<close>, whatever its class and message), the result is the
  fixed sentence "Zusammenfassung konnte nicht erstellt werden." and nothing is raised;
  when the call returns a list whose first dict has the key \<open>summary_text\<close>, the result
  is that entry. Unless the call raises an exception outside \<open>Exception\<close> (an interrupt
  or an exit of the interpreter), \<open>summarize_text\<close> returns a string.
\<close>

theorem summarize_text_spec:
  assumes "summarizer self = Some pipeline"
  shows "length (take 1024 text) \<le> 1024
    \<and> (\<forall>cls msg. pipeline (take 1024 text) 150 40 False = Inl (Exception cls msg) \<longrightarrow>
          summarize_text self text = Inr (str ''Zusammenfassung konnte nicht erstellt werden.''))
    \<and> (\<forall>d ds t. pipeline (take 1024 text) 150 40 False = Inr (d # ds) \<and> d ''summary_text'' = Some t \<longrightarrow>
          summarize_text self text = Inr t)
    \<and> ((\<forall>cls msg. pipeline (take 1024 text) 150 40 False \<noteq> Inl (BaseException cls msg)) \<longrightarrow>
          (\<exists>r. summarize_text self text = Inr r))
    \<and> (\<forall>pipeline'. pipeline' (take 1024 text) 150 40 False = pipeline (take 1024 text) 150 40 False \<longrightarrow>
          summarize_text (self\<lparr>summarizer := Some pipeline'\<rparr>) text = summarize_text self text)"
proof -
  have t: "(if length text > 1024 then take 1024 text else text) = take 1024 text"
    by simp
  show ?thesis using assms
    by (auto simp add: summarize_text_def Let_def t SUMMARY_MAX_LENGTH_def SUMMARY_MIN_LENGTH_def
        summary_fallback_def split: sum.splits list.splits option.splits exn.splits)
qed

theorem summarize_text_spec_witness:
  "summarizer \<lparr>ner_pipeline = None, summarizer = Some failing_summarizer\<rparr> = Some failing_summarizer
   \<and> failing_summarizer (take 1024 (str ''Max Mustermann'')) 150 40 False
       = Inl (Exception ''RuntimeError'' ''out of memory'')
   \<and> summarize_text \<lparr>ner_pipeline = None, summarizer = Some failing_summarizer\<rparr> (str ''Max Mustermann'')
       = Inr (str ''Zusammenfassung konnte nicht erstellt werden.'')
   \<and> echo_summarizer (take 1024 (replicate 2000 32)) 150 40 False
       = Inr ([''summary_text'' \<mapsto> replicate 1024 32] # [])
   \<and> summarize_text \<lparr>ner_pipeline = None, summarizer = Some echo_summarizer\<rparr> (replicate 2000 32)
       = Inr (replicate 1024 32)"
proof -
  have a: "summarizer \<lparr>ner_pipeline = None, summarizer = Some failing_summarizer\<rparr> = Some failing_summarizer"
    by simp
  have b: "failing_summarizer (take 1024 (str ''Max Mustermann'')) 150 40 False
             = Inl (Exception ''RuntimeError'' ''out of memory'')"
    by (simp add: failing_summarizer_def)
  have c: "summarizer \<lparr>ner_pipeline = None, summarizer = Some echo_summarizer\<rparr> = Some echo_summarizer"
    by simp
  have d: "echo_summarizer (take 1024 (replicate 2000 32)) 150 40 False
             = Inr ([''summary_text'' \<mapsto> replicate 1024 32] # [])"
    by (simp add: echo_summarizer_def)
  have e: "[''summary_text'' \<mapsto> replicate 1024 (32::nat)] ''summary_text'' = Some (replicate 1024 32)"
    by simp
  from summarize_text_spec [OF a, of "str ''Max Mustermann''"] summarize_text_spec [OF c, of "replicate 2000 32"]
    a b d e show ?thesis
    by blast
qed

section \<open>Repeated calls\<close>

text \<open>
  Claim C9. With the same processor (its two capabilities are functions: the same text
  gives the same answer) and the same input, two calls of \<open>extract_candidate_data\<close> made
  on any two dates end alike: both raise the same exception, or both return profiles
  that are equal once the generation remark \<open>zusaetzliche_bemerkungen\<close> is set aside.
\<close>

theorem rerun_equal_up_to_date:
  "map_sum id (\<lambda>p. p\<lparr>zusaetzliche_bemerkungen := []\<rparr>) (extract_candidate_data U self today1 raw_text)
   = map_sum id (\<lambda>p. p\<lparr>zusaetzliche_bemerkungen := []\<rparr>) (extract_candidate_data U self today2 raw_text)"
  by (simp add: extract_candidate_data_def Let_def split: sum.splits prod.splits)

section \<open>Regular expressions: properties\<close>

text \<open>
  A match consumes at least \<open>min_len\<close> characters. Every pattern of the source consumes
  at least one, so the scan never meets an empty match: it reports the first way to match
  at the leftmost position and goes on behind it.
\<close>

lemma rx_match_consumes:
  "(s', gs') \<in> set (rx_match r s gs) \<Longrightarrow> length s' + min_len r \<le> length s"
proof (induction r arbitrary: s gs s' gs')
  case (Chars P)
  then show ?case by (auto split: list.splits if_splits)
next
  case (Lit l)
  then show ?case by (auto simp: prefix_def split: if_splits)
next
  case (Seq a b)
  from Seq.prems obtain s1 g1 where m1: "(s1, g1) \<in> set (rx_match a s gs)"
    and m2: "(s', gs') \<in> set (rx_match b s1 g1)"
    by auto
  from Seq.IH(1) [OF m1] Seq.IH(2) [OF m2] show ?case by simp
next
  case (Alt a b)
  from Alt.prems have "(s', gs') \<in> set (rx_match a s gs) \<or> (s', gs') \<in> set (rx_match b s gs)"
    by simp
  with Alt.IH show ?case by fastforce
next
  case (Rep P lo hi)
  then have "\<exists>k. lo \<le> k \<and> k \<le> length (takeWhile P s) \<and> s' = drop k s"
    by (cases hi) (auto simp: Let_def less_Suc_eq_le simp del: upt_Suc)
  then obtain k where k: "lo \<le> k" "k \<le> length (takeWhile P s)" "s' = drop k s"
    by blast
  from k(2) have "k \<le> length s"
    using length_takeWhile_le [of P s] by linarith
  with k show ?case by simp
next
  case (Grp r)
  then show ?case by auto
qed

lemma source_patterns_consume:
  "0 < min_len (date_pattern U) \<and> 0 < min_len (company_pattern U)
   \<and> 0 < min_len (education_date_pattern U) \<and> 0 < min_len (blank_line U)
   \<and> 0 < min_len (Chars (phone_separator U))"
  by (simp add: date_pattern_def company_pattern_def education_date_pattern_def blank_line_def)

lemma match_at_consumes:
  "match_at r s = Some (m, gs, rest) \<Longrightarrow> length rest + min_len r \<le> length s"
proof -
  assume "match_at r s = Some (m, gs, rest)"
  then have "(rest, gs) \<in> set (rx_match r s [])"
    by (auto simp: match_at_def result_of_def split: list.splits)
  then show ?thesis by (rule rx_match_consumes)
qed

lemma scan_consuming:
  assumes "0 < min_len r"
  shows "scan r s =
     (case match_at r s of
        None \<Rightarrow> (case s of [] \<Rightarrow> [] | c # cs \<Rightarrow> Chr c # scan r cs)
      | Some (m, gs, rest) \<Rightarrow> Mat m gs # scan r rest)"
proof (cases "match_at r s")
  case None
  then show ?thesis by (subst scan.simps) simp
next
  case (Some x)
  obtain m gs rest where x: "x = (m, gs, rest)" by (cases x) auto
  from match_at_consumes [of r s m gs rest] Some x assms have "length rest < length s" by simp
  with Some x show ?thesis by (subst scan.simps) simp
qed

section \<open>Work experience and education: properties\<close>

lemma rx_match_groups:
  "uniform r \<Longrightarrow> (s', gs') \<in> set (rx_match r s gs) \<Longrightarrow> length gs' = length gs + ngroups r"
proof (induction r arbitrary: s gs s' gs')
  case (Chars P)
  then show ?case by (auto split: list.splits if_splits)
next
  case (Lit l)
  then show ?case by (auto split: if_splits)
next
  case (Seq a b)
  from Seq.prems(2) obtain s1 g1 where m1: "(s1, g1) \<in> set (rx_match a s gs)"
    and m2: "(s', gs') \<in> set (rx_match b s1 g1)"
    by auto
  from Seq.prems(1) have ua: "uniform a" and ub: "uniform b" by simp_all
  from Seq.IH(1) [OF ua m1] Seq.IH(2) [OF ub m2] show ?case by simp
next
  case (Alt a b)
  then show ?case by auto
next
  case (Rep P lo hi)
  then show ?case by (auto simp: Let_def)
next
  case (Grp r)
  then show ?case by auto
qed

lemma match_at_groups:
  assumes "uniform r" and "match_at r s = Some (m, gs, rest)"
  shows "length gs = ngroups r"
proof -
  from assms(2) obtain x xs where x: "rx_match r s [] = x # xs" and g: "gs = snd x"
    by (auto simp: match_at_def result_of_def split: list.splits)
  then have "(fst x, gs) \<in> set (rx_match r s [])" by simp
  from rx_match_groups [OF assms(1) this] show ?thesis by simp
qed

lemma re_search_groups:
  assumes "uniform r" and "0 < ngroups r"
  shows "re_search r s = Some g \<Longrightarrow> length g = ngroups r"
proof (induction s)
  case Nil
  then show ?case
    using match_at_groups [OF assms(1), of "[]"] assms(2)
    by (auto split: option.splits if_splits)
next
  case (Cons c cs)
  then show ?case
    using match_at_groups [OF assms(1), of "c # cs"] assms(2)
    by (auto split: option.splits if_splits)
qed

lemma date_pattern_shape: "uniform (date_pattern U) \<and> ngroups (date_pattern U) = 2"
  by (simp add: date_pattern_def)

lemma education_date_pattern_shape:
  "uniform (education_date_pattern U) \<and> ngroups (education_date_pattern U) = 2"
  by (simp add: education_date_pattern_def)

lemma company_pattern_shape: "uniform (company_pattern U) \<and> ngroups (company_pattern U) = 1"
  by (simp add: company_pattern_def)

lemma scan_Nil:
  "scan r [] = (case match_at r [] of None \<Rightarrow> [] | Some (m, gs, rest) \<Rightarrow> [Mat m gs])"
  by (subst scan.simps) (simp add: match_advancing_def split: option.splits)

lemma findall_search:
  "re_search r s = (case re_findall r s of [] \<Rightarrow> None | g # _ \<Rightarrow> Some g)"
proof (induction s)
  case Nil
  show ?case
    by (simp add: re_findall_def scan_Nil split: option.splits)
next
  case (Cons c cs)
  show ?case
  proof (cases "match_at r (c # cs)")
    case None
    then have "scan r (c # cs) = Chr c # scan r cs"
      by (subst scan.simps) simp
    with None Cons show ?thesis
      by (simp add: re_findall_def)
  next
    case (Some x)
    obtain m gs rest where x: "x = (m, gs, rest)" by (cases x) auto
    with Some have "\<exists>ts. scan r (c # cs) = Mat m gs # ts"
      by (subst scan.simps) simp
    with Some x show ?thesis
      by (auto simp: re_findall_def)
  qed
qed


lemma findall_nonempty_iff: "re_findall r s \<noteq> [] \<longleftrightarrow> re_search r s \<noteq> None"
  by (simp add: findall_search split: list.splits)

lemma findall_hd: "re_findall r s \<noteq> [] \<Longrightarrow> re_search r s = Some (hd (re_findall r s))"
  by (simp add: findall_search split: list.splits)

lemma experience_step_spec:
  "experience_step U experiences block =
     experiences @ (case spec_experience_entry U block of None \<Rightarrow> [] | Some entry \<Rightarrow> [entry])"
proof (cases "re_findall (date_pattern U) block \<noteq> [] \<and> re_findall (company_pattern U) block \<noteq> []")
  case True
  then have d: "re_search (date_pattern U) block = Some (hd (re_findall (date_pattern U) block))"
    and c: "re_search (company_pattern U) block = Some (hd (re_findall (company_pattern U) block))"
    by (simp_all add: findall_hd)
  with True show ?thesis
    by (simp add: experience_step_def spec_experience_entry_def first_date_range_def
        first_company_def list_ex_iff Let_def)
next
  case False
  then have "re_search (date_pattern U) block = None \<or> re_search (company_pattern U) block = None"
    by (simp add: findall_nonempty_iff)
  with False show ?thesis
    by (auto simp: experience_step_def spec_experience_entry_def first_date_range_def
        first_company_def list_ex_iff Let_def split: option.splits)
qed

lemma experience_loop_spec:
  "experience_loop U blocks experiences = experiences @ List.map_filter (spec_experience_entry U) blocks"
  by (induction blocks arbitrary: experiences)
     (simp_all add: experience_step_spec List.map_filter_simps split: option.splits)

lemma education_step_spec:
  "education_step U education block =
     education @ (case spec_education_entry U block of None \<Rightarrow> [] | Some entry \<Rightarrow> [entry])"
proof (cases "re_findall (education_date_pattern U) block \<noteq> []")
  case True
  then have "re_search (education_date_pattern U) block
               = Some (hd (re_findall (education_date_pattern U) block))"
    by (simp add: findall_hd)
  with True show ?thesis
    by (simp add: education_step_def spec_education_entry_def first_date_range_def list_ex_iff Let_def)
next
  case False
  then have "re_search (education_date_pattern U) block = None"
    by (simp add: findall_nonempty_iff)
  with False show ?thesis
    by (simp add: education_step_def spec_education_entry_def first_date_range_def list_ex_iff Let_def)
qed

lemma education_loop_spec:
  "education_loop U blocks education = education @ List.map_filter (spec_education_entry U) blocks"
  by (induction blocks arbitrary: education)
     (simp_all add: education_step_spec List.map_filter_simps split: option.splits)

lemma re_search_None_iff:
  "re_search r s = None \<longleftrightarrow> (\<forall>t. suffix t s \<longrightarrow> match_at r t = None)"
proof (induction s)
  case Nil
  then show ?case by (auto split: option.splits)
next
  case (Cons c cs)
  show ?case
  proof (cases "match_at r (c # cs)")
    case None
    with Cons show ?thesis by (auto simp: suffix_Cons)
  next
    case (Some x)
    then show ?thesis by (auto split: prod.splits)
  qed
qed

lemma rx_match_Times4:
  "(s', gs') \<in> set (rx_match (Times P 4 4) s gs) \<Longrightarrow>
     s' = drop 4 s \<and> gs' = gs \<and> length (take 4 s) = 4 \<and> list_all P (take 4 s)"
proof -
  assume a: "(s', gs') \<in> set (rx_match (Times P 4 4) s gs)"
  have u: "[4 ..< Suc (min 4 n)] = (if 4 \<le> n then [4] else [])" for n :: nat
    by (simp add: upt_rec)
  from a have n: "4 \<le> length (takeWhile P s)" and r: "s' = drop 4 s" "gs' = gs"
    by (auto simp: Let_def u split: if_splits)
  from n have l: "4 \<le> length s"
    using length_takeWhile_le [of P s] by linarith
  have "take 4 s = take 4 (takeWhile P s)"
    using n by (metis append_eq_conv_conj min.absorb2 take_take takeWhile_dropWhile_id take_append order_refl diff_is_0_eq take_0 append_Nil2)
  then have "set (take 4 s) \<subseteq> set (takeWhile P s)"
    by (metis set_take_subset)
  then have "list_all P (take 4 s)"
    by (auto simp: list_all_iff dest: set_takeWhileD)
  with r l show ?thesis by simp
qed


lemma rx_match_Seq_iff:
  "(s', gs') \<in> set (rx_match (Seq a b) s gs) \<longleftrightarrow>
     (\<exists>s1 g1. (s1, g1) \<in> set (rx_match a s gs) \<and> (s', gs') \<in> set (rx_match b s1 g1))"
  by auto

lemma rx_match_Grp_iff:
  "(s', gs') \<in> set (rx_match (Grp r) s gs) \<longleftrightarrow>
     (\<exists>g1. (s', g1) \<in> set (rx_match r s gs) \<and> gs' = g1 @ [take (length s - length s') s])"
  by auto

lemma rx_match_Grp_Alt:
  "(s', gs') \<in> set (rx_match (Grp (Alt a b)) s gs) \<longleftrightarrow>
     (s', gs') \<in> set (rx_match (Grp a) s gs) \<or> (s', gs') \<in> set (rx_match (Grp b) s gs)"
  by auto

lemma rx_match_Lit_iff:
  "(s', gs') \<in> set (rx_match (Lit l) s gs) \<longleftrightarrow> s = l @ s' \<and> gs' = gs"
  by (auto simp: prefix_def)

lemma rx_match_Rep_groups: "(s', gs') \<in> set (rx_match (Rep P lo hi) s gs) \<Longrightarrow> gs' = gs"
  by (auto simp: Let_def)

lemma rx_match_Chars_groups: "(s', gs') \<in> set (rx_match (Chars P) s gs) \<Longrightarrow> gs' = gs"
  by (auto split: list.splits if_splits)

lemma rx_match_Grp_Times4:
  assumes "(s', gs') \<in> set (rx_match (Grp (Times P 4 4)) s gs)"
  shows "\<exists>a. gs' = gs @ [a] \<and> length a = 4 \<and> list_all P a"
proof -
  from assms obtain g1 where m: "(s', g1) \<in> set (rx_match (Times P 4 4) s gs)"
    and g: "gs' = g1 @ [take (length s - length s') s]"
    unfolding rx_match_Grp_iff by blast
  from rx_match_Times4 [OF m] have "s' = drop 4 s" "g1 = gs" "length (take 4 s) = 4" "list_all P (take 4 s)"
    by simp_all
  with g show ?thesis by auto
qed

lemma education_date_match_sides:
  assumes "(s', gs') \<in> set (rx_match (education_date_pattern U) s [])"
  shows "\<exists>a b. gs' = [a, b] \<and> length a = 4 \<and> list_all (isdecimal U) a \<and>
           (b = str ''dato'' \<or> b = str ''heute'' \<or> (length b = 4 \<and> list_all (isdecimal U) b))"
proof -
  from assms obtain s1 g1 s2 g2 s3 g3 s4 g4 where
        m1: "(s1, g1) \<in> set (rx_match (Grp (Times (isdecimal U) 4 4)) s [])"
    and m2: "(s2, g2) \<in> set (rx_match (Star (isspace U)) s1 g1)"
    and m3: "(s3, g3) \<in> set (rx_match (Chars dash) s2 g2)"
    and m4: "(s4, g4) \<in> set (rx_match (Star (isspace U)) s3 g3)"
    and m5: "(s', gs') \<in> set (rx_match (Grp (Alt (Times (isdecimal U) 4 4)
                 (Alt (Lit (str ''dato'')) (Lit (str ''heute''))))) s4 g4)"
    unfolding education_date_pattern_def Seqs.simps Alts.simps rx_match_Seq_iff by blast
  from rx_match_Grp_Times4 [OF m1] obtain a where a: "g1 = [a]" "length a = 4" "list_all (isdecimal U) a"
    by auto
  from rx_match_Rep_groups [OF m2] rx_match_Chars_groups [OF m3] rx_match_Rep_groups [OF m4] a
  have g4: "g4 = [a]" by simp
  from m5 consider
      (years) "(s', gs') \<in> set (rx_match (Grp (Times (isdecimal U) 4 4)) s4 g4)"
    | (dato) "(s', gs') \<in> set (rx_match (Grp (Lit (str ''dato''))) s4 g4)"
    | (heute) "(s', gs') \<in> set (rx_match (Grp (Lit (str ''heute''))) s4 g4)"
    unfolding rx_match_Grp_Alt by blast
  then show ?thesis
  proof cases
    case years
    from rx_match_Grp_Times4 [OF years] g4 a show ?thesis by auto
  next
    case dato
    then have "gs' = g4 @ [str ''dato'']"
      unfolding rx_match_Grp_iff rx_match_Lit_iff by auto
    with g4 a show ?thesis by auto
  next
    case heute
    then have "gs' = g4 @ [str ''heute'']"
      unfolding rx_match_Grp_iff rx_match_Lit_iff by auto
    with g4 a show ?thesis by auto
  qed
qed

lemma match_at_Some:
  "match_at r t = Some (m, gs, rest) \<Longrightarrow> (rest, gs) \<in> set (rx_match r t [])"
  by (auto simp: match_at_def result_of_def split: list.splits)

lemma re_search_Some:
  "re_search r s = Some g \<Longrightarrow>
     \<exists>t m gs rest. suffix t s \<and> match_at r t = Some (m, gs, rest) \<and> g = (if gs = [] then [m] else gs)"
proof (induction s)
  case Nil
  then obtain m gs rest where "match_at r [] = Some (m, gs, rest)" "g = (if gs = [] then [m] else gs)"
    by (auto split: option.splits)
  then show ?case
    by (rule_tac x = "[]" in exI, rule_tac x = m in exI, rule_tac x = gs in exI,
        rule_tac x = rest in exI) simp
next
  case (Cons c cs)
  show ?case
  proof (cases "match_at r (c # cs)")
    case None
    with Cons.prems have "re_search r cs = Some g" by simp
    from Cons.IH [OF this] obtain t m gs rest where "suffix t cs"
      "match_at r t = Some (m, gs, rest)" "g = (if gs = [] then [m] else gs)"
      by blast
    then show ?thesis
      by (rule_tac x = t in exI, rule_tac x = m in exI, rule_tac x = gs in exI,
          rule_tac x = rest in exI) (simp add: suffix_Cons)
  next
    case (Some y)
    with Cons.prems obtain m gs rest where "match_at r (c # cs) = Some (m, gs, rest)"
      "g = (if gs = [] then [m] else gs)"
      by (auto split: prod.splits)
    then show ?thesis
      by (rule_tac x = "c # cs" in exI, rule_tac x = m in exI, rule_tac x = gs in exI,
          rule_tac x = rest in exI) simp
  qed
qed

lemma education_period_sides:
  assumes "first_date_range (education_date_pattern U) block = Some (left, right)"
  shows "length left = 4 \<and> list_all (isdecimal U) left \<and>
           (right = str ''dato'' \<or> right = str ''heute'' \<or> (length right = 4 \<and> list_all (isdecimal U) right))"
proof -
  from assms obtain g where g: "re_search (education_date_pattern U) block = Some g"
    and lr: "left = g ! 0" "right = g ! 1"
    by (auto simp: first_date_range_def)
  from re_search_Some [OF g] obtain t m gs rest where
    x: "match_at (education_date_pattern U) t = Some (m, gs, rest)"
    and gx: "g = (if gs = [] then [m] else gs)"
    by blast
  from match_at_Some [OF x] have "(rest, gs) \<in> set (rx_match (education_date_pattern U) t [])" .
  from education_date_match_sides [OF this] gx lr show ?thesis by auto
qed

text \<open>
  Claim C3. \<open>extract_work_experience\<close> returns, in the order of the blocks that the
  split on blank lines gives, exactly the entries of the blocks that contain an
  experience keyword in their lowercased text, a date range and an organization name.
  The period of an entry is the two sides of the leftmost date range joined by " - ", the
  company is the leftmost organization name, the description is the stripped block. A
  block that misses one of the three gives no entry; the function is total. A match of
  the date pattern always has its two sides, a match of the organization pattern its one
  name, and a pattern has no first match in a block exactly when it matches at no
  position of the block.
\<close>

theorem extract_work_experience_spec:
  "extract_work_experience U text = List.map_filter (spec_experience_entry U) (sections U text)
   \<and> (\<forall>block g. re_search (date_pattern U) block = Some g \<longrightarrow> g = [g ! 0, g ! 1])
   \<and> (\<forall>block g. re_search (company_pattern U) block = Some g \<longrightarrow> g = [g ! 0])
   \<and> (\<forall>r block. re_search r block = None \<longleftrightarrow> (\<forall>t. suffix t block \<longrightarrow> match_at r t = None))"
proof -
  have a: "g = [g ! 0, g ! 1]" if "re_search (date_pattern U) block = Some g" for block g
  proof -
    from re_search_groups [OF _ _ that] date_pattern_shape [of U] have "length g = 2" by simp
    then show ?thesis by (cases g; cases "tl g") auto
  qed
  have b: "g = [g ! 0]" if "re_search (company_pattern U) block = Some g" for block g
  proof -
    from re_search_groups [OF _ _ that] company_pattern_shape [of U] have "length g = 1" by simp
    then show ?thesis by (cases g) auto
  qed
  from a b re_search_None_iff show ?thesis
    by (simp add: extract_work_experience_def experience_loop_spec)
qed

theorem extract_work_experience_spec_witness:
  "extract_work_experience latin1 sample_cv =
     [\<lparr>exp_period = str ''2019 - 2021'', exp_company = str ''Beispiel GmbH'',
       exp_description = str ''Erfahrung 2019 - 2021 Beispiel GmbH''\<rparr>,
      \<lparr>exp_period = str ''03/2021 - heute'', exp_company = str ''Muster AG'',
       exp_description = str ''Stelle 03/2021-heute Muster AG''\<rparr>]
   \<and> re_search (date_pattern latin1) (str ''Stelle 03/2021-heute Muster AG'')
       = Some [str ''03/2021'', str ''heute'']
   \<and> re_search (company_pattern latin1) (str ''Stelle 03/2021-heute Muster AG'')
       = Some [str ''Muster AG'']"
proof -
  have a: "List.map_filter (spec_experience_entry latin1) (sections latin1 sample_cv) =
     [\<lparr>exp_period = str ''2019 - 2021'', exp_company = str ''Beispiel GmbH'',
       exp_description = str ''Erfahrung 2019 - 2021 Beispiel GmbH''\<rparr>,
      \<lparr>exp_period = str ''03/2021 - heute'', exp_company = str ''Muster AG'',
       exp_description = str ''Stelle 03/2021-heute Muster AG''\<rparr>]"
    by code_simp
  have b: "re_search (date_pattern latin1) (str ''Stelle 03/2021-heute Muster AG'')
       = Some [str ''03/2021'', str ''heute'']"
    by code_simp
  have c: "re_search (company_pattern latin1) (str ''Stelle 03/2021-heute Muster AG'')
       = Some [str ''Muster AG'']"
    by code_simp
  from extract_work_experience_spec [of latin1 sample_cv] a b c show ?thesis
    by simp
qed

lemma experience_without_legal_suffix:
  "extract_work_experience latin1 (str ''Erfahrung 2019 - 2021 Beispiel'') = []"
  by code_simp

text \<open>
  Claim C4. \<open>extract_education\<close> returns, in the order of the blocks, exactly one entry
  for every block that contains an education keyword in its lowercased text, whatever
  else the block contains. The period is the two sides of the leftmost match of the
  education date pattern (two four-digit years, or a four-digit year and "dato" or
  "heute") joined by " - ", and empty when the pattern matches nowhere in the block; the
  institution and the degree are empty; the description is the stripped block. The left
  side of a period is always four decimal digits, the right side four decimal digits,
  "dato" or "heute".
\<close>

theorem extract_education_spec:
  "extract_education U text = List.map_filter (spec_education_entry U) (sections U text)
   \<and> (\<forall>block g. re_search (education_date_pattern U) block = Some g \<longrightarrow> g = [g ! 0, g ! 1])
   \<and> (\<forall>block entry. spec_education_entry U block = Some entry \<longrightarrow> edu_institution entry = [])
   \<and> (\<forall>block left right.
        first_date_range (education_date_pattern U) block = Some (left, right) \<longrightarrow>
          length left = 4 \<and> list_all (isdecimal U) left \<and>
          (right = str ''dato'' \<or> right = str ''heute'' \<or>
           (length right = 4 \<and> list_all (isdecimal U) right)))"
proof -
  have a: "g = [g ! 0, g ! 1]" if "re_search (education_date_pattern U) block = Some g" for block g
  proof -
    from re_search_groups [OF _ _ that] education_date_pattern_shape [of U] have "length g = 2" by simp
    then show ?thesis by (cases g; cases "tl g") auto
  qed
  have b: "edu_institution entry = []" if "spec_education_entry U block = Some entry" for block entry
    using that by (auto simp: spec_education_entry_def split: if_splits)
  have c: "length left = 4 \<and> list_all (isdecimal U) left \<and>
          (right = str ''dato'' \<or> right = str ''heute'' \<or>
           (length right = 4 \<and> list_all (isdecimal U) right))"
    if "first_date_range (education_date_pattern U) block = Some (left, right)" for block left right
    using that by (rule education_period_sides)
  have d: "extract_education U text = List.map_filter (spec_education_entry U) (sections U text)"
    by (simp add: extract_education_def education_loop_spec)
  from a b c d show ?thesis
    by blast
qed

theorem extract_education_spec_witness:
  "extract_education latin1 sample_education =
     [\<lparr>edu_period = [], edu_institution = [], edu_degree = [],
       edu_description = str ''Studium Informatik''\<rparr>,
      \<lparr>edu_period = str ''2019 - 2021'', edu_institution = [], edu_degree = [],
       edu_description = str ''Hochschule 03/2019 - 2021''\<rparr>]
   \<and> re_search (education_date_pattern latin1) (str ''Hochschule 03/2019 - 2021'')
       = Some [str ''2019'', str ''2021'']
   \<and> edu_institution (the (spec_education_entry latin1 (str ''Studium Informatik''))) = []"
proof -
  have a: "List.map_filter (spec_education_entry latin1) (sections latin1 sample_education) =
     [\<lparr>edu_period = [], edu_institution = [], edu_degree = [],
       edu_description = str ''Studium Informatik''\<rparr>,
      \<lparr>edu_period = str ''2019 - 2021'', edu_institution = [], edu_degree = [],
       edu_description = str ''Hochschule 03/2019 - 2021''\<rparr>]"
    by code_simp
  have b: "re_search (education_date_pattern latin1) (str ''Hochschule 03/2019 - 2021'')
       = Some [str ''2019'', str ''2021'']"
    by code_simp
  have c: "spec_education_entry latin1 (str ''Studium Informatik'')
       = Some (the (spec_education_entry latin1 (str ''Studium Informatik'')))"
    by code_simp
  from extract_education_spec [of latin1 sample_education] a b c show ?thesis
    by simp
qed

section \<open>Identity resolution: properties\<close>

lemma scan_Chars_Nil: "scan (Chars P) [] = []"
  by (subst scan.simps) (simp add: match_at_def)

lemma scan_Chars_Cons:
  "scan (Chars P) (c # cs) = (if P c then Mat [c] [] else Chr c) # scan (Chars P) cs"
  by (subst scan.simps) (simp add: match_at_def result_of_def)

text \<open>Substituting the empty string for a one-character class deletes its characters.\<close>

lemma re_sub_Chars: "re_sub (Chars P) [] s = filter (\<lambda>c. \<not> P c) s"
  by (induction s) (simp_all add: re_sub_def scan_Chars_Nil scan_Chars_Cons)

lemma is_phone_number_filter:
  "is_phone_number U text \<longleftrightarrow>
     (let clean_text = filter (\<lambda>c. \<not> phone_separator U c) text
      in 7 \<le> length clean_text \<and> length clean_text \<le> 15 \<and>
         7 * length clean_text \<le> 10 * length (filter (isdigit U) clean_text))"
  by (simp add: is_phone_number_def re_sub_Chars)

lemma is_phone_number_nonempty: "is_phone_number U text \<Longrightarrow> text \<noteq> []"
  by (auto simp: is_phone_number_filter Let_def)

lemma sublist_at_nonempty: "sublist (str ''@'') text \<Longrightarrow> text \<noteq> []"
  by (auto simp: str_def)

lemma identity_step_cases:
  "identity_step U (n, e, p) x =
     (if person_entity x \<and> n = [] then (entity_word x, e, p)
      else if email_entity x \<and> e = [] then (n, entity_word x, p)
      else if phone_entity U x \<and> p = [] then (n, e, entity_word x)
      else (n, e, p))"
  by (simp only: identity_step.simps Let_def person_entity_def email_entity_def phone_entity_def
      entity_word_def conj_assoc)

lemma person_not_misc: "person_entity x \<Longrightarrow> \<not> email_entity x \<and> \<not> phone_entity U x"
  by (simp add: person_entity_def email_entity_def phone_entity_def str_def ch_def)

lemma set_without_first: "set (without_first P xs) \<subseteq> set xs"
  by (induction xs) auto

text \<open>
  The loop from any state of its three variables: a variable that is set stays; one that
  is empty receives the text of the first entity that qualifies for it. An entity taken
  as the email is not looked at for the phone.
\<close>

lemma identity_loop_general:
  "identity_loop U entities (n, e, p) =
     (if n \<noteq> [] then n else first_word (\<lambda>x. person_entity x \<and> entity_word x \<noteq> []) entities,
      if e \<noteq> [] then e else first_word email_entity entities,
      if p \<noteq> [] then p
      else first_word (phone_entity U) (if e \<noteq> [] then entities else without_first email_entity entities))"
proof (induction entities arbitrary: n e p)
  case Nil
  then show ?case by (simp add: first_word_def)
next
  case (Cons x xs)
  have em: "email_entity x \<Longrightarrow> entity_word x \<noteq> []"
    by (auto simp: email_entity_def dest: sublist_at_nonempty)
  have ph: "phone_entity U x \<Longrightarrow> entity_word x \<noteq> []"
    by (auto simp: phone_entity_def dest: is_phone_number_nonempty)
  show ?case
    using em ph person_not_misc [of x U]
    by (cases "person_entity x"; cases "email_entity x"; cases "phone_entity U x";
        cases "entity_word x = []")
       (simp_all add: identity_step_cases Cons.IH first_word_def del: identity_step.simps)
qed

text \<open>
  Claim C6, as the code has it. One pass over the entities in order gives: the name, the
  text of the first person-tagged entity whose text is not empty; the email, the text of
  the first miscellaneous entity whose text contains the at sign; the phone, the text of
  the first miscellaneous entity passing the phone test among the entities other than the
  one taken as the email. The phone test is: after deleting hyphens, whitespace and round
  brackets, the length is 7 to 15 and at least 70 percent of the characters are digits.
  A field that is set is not changed by the entities that follow.
\<close>

theorem identity_resolution:
  "identity_loop U entities ([], [], []) =
     (first_word (\<lambda>x. person_entity x \<and> entity_word x \<noteq> []) entities,
      first_word email_entity entities,
      first_word (phone_entity U) (without_first email_entity entities))
   \<and> (is_phone_number U text \<longleftrightarrow>
        (let clean_text = filter (\<lambda>c. \<not> phone_separator U c) text
         in 7 \<le> length clean_text \<and> length clean_text \<le> 15 \<and>
            7 * length clean_text \<le> 10 * length (filter (isdigit U) clean_text)))
   \<and> (n \<noteq> [] \<longrightarrow> fst (identity_loop U rest (n, e, p)) = n)
   \<and> (e \<noteq> [] \<longrightarrow> fst (snd (identity_loop U rest (n, e, p))) = e)
   \<and> (p \<noteq> [] \<longrightarrow> snd (snd (identity_loop U rest (n, e, p))) = p)"
  using is_phone_number_filter [of U "text"]
  by (simp add: identity_loop_general)

theorem identity_resolution_witness:
  "identity_loop latin1 sample_entities ([], [], []) =
     (str ''Max Mustermann'', str ''max@firma.de'', str ''+49 176 1234567'')
   \<and> str ''Max Mustermann'' \<noteq> []
   \<and> fst (identity_loop latin1 [mk_entity ''PER'' ''Erika Musterfrau''] (str ''Max Mustermann'', [], []))
       = str ''Max Mustermann''"
proof -
  have a: "first_word (\<lambda>x. person_entity x \<and> entity_word x \<noteq> []) sample_entities = str ''Max Mustermann''"
    by code_simp
  have b: "first_word email_entity sample_entities = str ''max@firma.de''"
    by code_simp
  have c: "first_word (phone_entity latin1) (without_first email_entity sample_entities)
             = str ''+49 176 1234567''"
    by code_simp
  have d: "str ''Max Mustermann'' \<noteq> []"
    by (simp add: str_def)
  from identity_resolution [of latin1 sample_entities "[]" "str ''Max Mustermann''"
      "[mk_entity ''PER'' ''Erika Musterfrau'']" "[]" "[]"] a b c d
  show ?thesis by simp
qed

text \<open>
  Claim C6 as it is worded fails: the only entity is miscellaneous and passes the phone
  test, yet it contains the at sign, is taken as the email, and the phone stays empty.
\<close>

theorem first_phone_entity_counterexample:
  "identity_loop latin1 [mk_entity ''MISC'' ''01761234567@web''] ([], [], [])
     = ([], str ''01761234567@web'', [])
   \<and> first_of_each_kind latin1 [mk_entity ''MISC'' ''01761234567@web'']
     = ([], str ''01761234567@web'', str ''01761234567@web'')"
  by code_simp

text \<open>
  Claim C10. For a miscellaneous entity whose text contains the at sign: while the email
  is empty the step assigns the text to the email and leaves name and phone as they were,
  whatever the phone test says; once the email is set, the step can only assign the text
  to the phone (when it passes the phone test and the phone is empty). So a step on such
  an entity that changes the phone had the email set before, and a phone containing the
  at sign at the end of the loop comes with a non-empty email.
\<close>

theorem email_before_phone:
  assumes "dict_get x ''entity_group'' [] = str ''MISC''"
      and "sublist (str ''@'') (dict_get x ''word'' [])"
  shows "(e = [] \<longrightarrow> identity_step U (n, e, p) x = (n, dict_get x ''word'' [], p))
     \<and> (e \<noteq> [] \<longrightarrow> identity_step U (n, e, p) x =
           (n, e, if is_phone_number U (dict_get x ''word'' []) \<and> p = []
                  then dict_get x ''word'' [] else p))
     \<and> (snd (snd (identity_step U (n, e, p) x)) \<noteq> p \<longrightarrow> e \<noteq> [])
     \<and> (\<forall>entities. sublist (str ''@'') (snd (snd (identity_loop U entities ([], [], [])))) \<longrightarrow>
           fst (snd (identity_loop U entities ([], [], []))) \<noteq> [])"
proof -
  have np: "str ''MISC'' \<noteq> str ''PER''"
    by (simp add: str_def ch_def)
  have a: "e = [] \<longrightarrow> identity_step U (n, e, p) x = (n, dict_get x ''word'' [], p)"
    using assms np by (simp add: Let_def)
  have b: "e \<noteq> [] \<longrightarrow> identity_step U (n, e, p) x =
           (n, e, if is_phone_number U (dict_get x ''word'' []) \<and> p = []
                  then dict_get x ''word'' [] else p)"
    using assms np by (simp add: Let_def)
  have c: "snd (snd (identity_step U (n, e, p) x)) \<noteq> p \<longrightarrow> e \<noteq> []"
    using a by auto
  have d: "fst (snd (identity_loop U entities ([], [], []))) \<noteq> []"
    if h: "sublist (str ''@'') (snd (snd (identity_loop U entities ([], [], []))))" for entities
  proof -
    from h have at: "sublist (str ''@'') (first_word (phone_entity U) (without_first email_entity entities))"
      by (simp add: identity_loop_general)
    then have "first_word (phone_entity U) (without_first email_entity entities) \<noteq> []"
      by (rule sublist_at_nonempty)
    with at obtain y where y: "find (phone_entity U) (without_first email_entity entities) = Some y"
      and w: "sublist (str ''@'') (entity_word y)"
      by (auto simp: first_word_def split: option.splits)
    from y have py: "phone_entity U y" and "y \<in> set (without_first email_entity entities)"
      by (auto simp: find_Some_iff)
    then have yin: "y \<in> set entities"
      using set_without_first [of email_entity entities] by blast
    from py w have "email_entity y"
      by (simp add: phone_entity_def email_entity_def)
    with yin obtain z where z: "find email_entity entities = Some z"
      by (cases "find email_entity entities") (auto simp: find_None_iff)
    then have "email_entity z"
      by (auto simp: find_Some_iff)
    then have "entity_word z \<noteq> []"
      by (auto simp: email_entity_def dest: sublist_at_nonempty)
    with z show ?thesis
      by (simp add: identity_loop_general first_word_def)
  qed
  from a b c d show ?thesis by blast
qed

theorem email_before_phone_witness:
  "dict_get (mk_entity ''MISC'' ''01761234567@web'') ''entity_group'' [] = str ''MISC''
   \<and> sublist (str ''@'') (dict_get (mk_entity ''MISC'' ''01761234567@web'') ''word'' [])
   \<and> is_phone_number latin1 (dict_get (mk_entity ''MISC'' ''01761234567@web'') ''word'' [])
   \<and> identity_step latin1 ([], [], []) (mk_entity ''MISC'' ''01761234567@web'')
       = ([], str ''01761234567@web'', [])
   \<and> identity_step latin1 ([], str ''max@firma.de'', []) (mk_entity ''MISC'' ''01761234567@web'')
       = ([], str ''max@firma.de'', str ''01761234567@web'')"
proof -
  have g: "dict_get (mk_entity ''MISC'' ''01761234567@web'') ''entity_group'' [] = str ''MISC''"
    by (simp add: dict_get_def mk_entity_def)
  have w: "dict_get (mk_entity ''MISC'' ''01761234567@web'') ''word'' [] = str ''01761234567@web''"
    by (simp add: dict_get_def mk_entity_def)
  have s: "sublist (str ''@'') (dict_get (mk_entity ''MISC'' ''01761234567@web'') ''word'' [])"
    by code_simp
  have f: "is_phone_number latin1 (dict_get (mk_entity ''MISC'' ''01761234567@web'') ''word'' [])"
    by code_simp
  have ne: "str ''max@firma.de'' \<noteq> []"
    by (simp add: str_def)
  from email_before_phone [OF g s, of "[]" latin1 "[]" "[]"]
       email_before_phone [OF g s, of "str ''max@firma.de''" latin1 "[]" "[]"] g w s f ne
  show ?thesis by simp
qed

section \<open>Failure of the recognizer\<close>

lemma strip_Nil: "strip U [] = []"
  by (simp add: strip_def)

lemma extract_entities_absorbs:
  "ner_pipeline self = Some pipeline \<Longrightarrow>
   pipeline raw_text = Inl (Exception cls msg) \<or> pipeline raw_text = Inr [] \<Longrightarrow>
   extract_entities self raw_text = Inr []"
  by (auto simp: extract_entities_def)

lemma extract_entities_propagates:
  "ner_pipeline self = Some pipeline \<Longrightarrow> pipeline raw_text = Inl (BaseException cls msg) \<Longrightarrow>
   extract_entities self raw_text = Inl (BaseException cls msg)"
  by (simp add: extract_entities_def)

lemma summarize_text_returns:
  assumes "summarizer self = Some s"
      and "\<forall>cls msg. s (take 1024 text) 150 40 False \<noteq> Inl (BaseException cls msg)"
  shows "\<exists>r. summarize_text self text = Inr r"
proof -
  have t: "(if length text > 1024 then take 1024 text else text) = take 1024 text"
    by simp
  show ?thesis using assms
    by (auto simp add: summarize_text_def Let_def t SUMMARY_MAX_LENGTH_def SUMMARY_MIN_LENGTH_def
        split: sum.splits list.splits option.splits exn.splits)
qed

text \<open>
  An exception outside \<open>Exception\<close> that the recognizer raises is not absorbed: on an
  input that is not blank it leaves \<open>extract_candidate_data\<close>.
\<close>

lemma recognizer_interrupt_propagates:
  assumes "strip U raw_text \<noteq> []"
      and "ner_pipeline self = Some pipeline"
      and "pipeline raw_text = Inl (BaseException cls msg)"
  shows "extract_candidate_data U self today raw_text = Inl (BaseException cls msg)"
proof -
  from assms(1) have "raw_text \<noteq> []"
    by (auto simp: strip_Nil)
  with assms(1) extract_entities_propagates [OF assms(2,3)] show ?thesis
    by (simp add: extract_candidate_data_def)
qed

text \<open>
  Claim C1, as the code has it. On an input that is not blank, a processor without a
  recognizer makes \<open>extract_candidate_data\<close> raise the ValueError "NER pipeline not
  loaded". An error that a loaded recognizer raises during the call (an exception of a
  class derived from \<open>Exception\<close>, whatever its class and message) is absorbed: the call
  ends exactly as it does when the recognizer returns no entities, and with a summarizer
  loaded whose call raises nothing outside \<open>Exception\<close> that is a profile whose name,
  email and phone are empty.
\<close>

theorem recognizer_failure:
  "(strip U raw_text \<noteq> [] \<and> ner_pipeline self = None \<longrightarrow>
      extract_candidate_data U self today raw_text
        = Inl (Exception ''ValueError'' ''NER pipeline not loaded''))
   \<and> (ner_pipeline self = Some pipeline \<and> pipeline raw_text = Inl (Exception cls msg) \<longrightarrow>
      extract_candidate_data U self today raw_text
        = extract_candidate_data U (self\<lparr>ner_pipeline := Some (\<lambda>t. Inr [])\<rparr>) today raw_text)
   \<and> (ner_pipeline self = Some pipeline
        \<and> (pipeline raw_text = Inl (Exception cls msg) \<or> pipeline raw_text = Inr [])
        \<and> summarizer self = Some s
        \<and> (\<forall>cls' msg'. s (take 1024 raw_text) 150 40 False \<noteq> Inl (BaseException cls' msg')) \<longrightarrow>
      (\<exists>p. extract_candidate_data U self today raw_text = Inr p
           \<and> name p = [] \<and> email p = [] \<and> phone p = []))"
proof -
  have a: "extract_candidate_data U self today raw_text
             = Inl (Exception ''ValueError'' ''NER pipeline not loaded'')"
    if "strip U raw_text \<noteq> []" "ner_pipeline self = None"
  proof -
    from that(1) have "raw_text \<noteq> []" by (auto simp: strip_Nil)
    with that show ?thesis
      by (simp add: extract_candidate_data_def extract_entities_def)
  qed
  have b: "extract_candidate_data U self today raw_text
        = extract_candidate_data U (self\<lparr>ner_pipeline := Some (\<lambda>t. Inr [])\<rparr>) today raw_text"
    if "ner_pipeline self = Some pipeline" "pipeline raw_text = Inl (Exception cls msg)"
    using that by (simp add: extract_candidate_data_def extract_entities_def summarize_text_def)
  have c: "\<exists>p. extract_candidate_data U self today raw_text = Inr p
           \<and> name p = [] \<and> email p = [] \<and> phone p = []"
    if h1: "ner_pipeline self = Some pipeline"
      and h2: "pipeline raw_text = Inl (Exception cls msg) \<or> pipeline raw_text = Inr []"
      and h3: "summarizer self = Some s"
      and h4: "\<forall>cls' msg'. s (take 1024 raw_text) 150 40 False \<noteq> Inl (BaseException cls' msg')"
  proof -
    from h1 h2 have e: "extract_entities self raw_text = Inr []"
      by (rule extract_entities_absorbs)
    obtain r where r: "summarize_text self raw_text = Inr r"
      using summarize_text_returns [OF h3 h4] by blast
    show ?thesis
      by (simp add: extract_candidate_data_def e r get_empty_template_def Let_def)
  qed
  from a b c show ?thesis by blast
qed

theorem recognizer_failure_witness:
  "strip latin1 (str ''Max'') \<noteq> []
   \<and> extract_candidate_data latin1 \<lparr>ner_pipeline = None, summarizer = Some echo_summarizer\<rparr>
        (str ''03.11.2026'') (str ''Max'') = Inl (Exception ''ValueError'' ''NER pipeline not loaded'')
   \<and> failing_recognizer (str ''Max'') = Inl (Exception ''RuntimeError'' ''inference failed'')
   \<and> name (projr (extract_candidate_data latin1
        \<lparr>ner_pipeline = Some failing_recognizer, summarizer = Some echo_summarizer\<rparr>
        (str ''03.11.2026'') (str ''Max''))) = []"
proof -
  have a: "strip latin1 (str ''Max'') \<noteq> []"
    by code_simp
  have b: "failing_recognizer (str ''Max'') = Inl (Exception ''RuntimeError'' ''inference failed'')"
    by (simp add: failing_recognizer_def)
  from recognizer_failure [of latin1 "str ''Max''" "\<lparr>ner_pipeline = None, summarizer = Some echo_summarizer\<rparr>"
      "str ''03.11.2026''"] a
  have c: "extract_candidate_data latin1 \<lparr>ner_pipeline = None, summarizer = Some echo_summarizer\<rparr>
        (str ''03.11.2026'') (str ''Max'') = Inl (Exception ''ValueError'' ''NER pipeline not loaded'')"
    by simp
  have prem: "ner_pipeline \<lparr>ner_pipeline = Some failing_recognizer, summarizer = Some echo_summarizer\<rparr>
        = Some failing_recognizer
      \<and> (failing_recognizer (str ''Max'') = Inl (Exception ''RuntimeError'' ''inference failed'')
         \<or> failing_recognizer (str ''Max'') = Inr [])
      \<and> summarizer \<lparr>ner_pipeline = Some failing_recognizer, summarizer = Some echo_summarizer\<rparr>
        = Some echo_summarizer
      \<and> (\<forall>cls' msg'. echo_summarizer (take 1024 (str ''Max'')) 150 40 False
             \<noteq> Inl (BaseException cls' msg'))"
    using b by (simp add: echo_summarizer_def)
  from mp [OF recognizer_failure [of latin1 "str ''Max''"
      "\<lparr>ner_pipeline = Some failing_recognizer, summarizer = Some echo_summarizer\<rparr>"
      "str ''03.11.2026''" failing_recognizer "''RuntimeError''" "''inference failed''" echo_summarizer,
      THEN conjunct2, THEN conjunct2] prem]
  obtain p where "extract_candidate_data latin1
        \<lparr>ner_pipeline = Some failing_recognizer, summarizer = Some echo_summarizer\<rparr>
        (str ''03.11.2026'') (str ''Max'') = Inr p" and "name p = []"
    by blast
  then have d: "name (projr (extract_candidate_data latin1
        \<lparr>ner_pipeline = Some failing_recognizer, summarizer = Some echo_summarizer\<rparr>
        (str ''03.11.2026'') (str ''Max''))) = []"
    by simp
  from a b c d show ?thesis by simp
qed

text \<open>
  Claim C1 as it is worded fails: a recognizer that raises gives the same profile as a
  recognizer that returns no entities, and no exception reaches the caller.
\<close>

theorem recognizer_error_absorbed_counterexample:
  "extract_candidate_data latin1 \<lparr>ner_pipeline = Some failing_recognizer, summarizer = Some echo_summarizer\<rparr>
       (str ''03.11.2026'') (str ''Max Mustermann'')
   = extract_candidate_data latin1 \<lparr>ner_pipeline = Some silent_recognizer, summarizer = Some echo_summarizer\<rparr>
       (str ''03.11.2026'') (str ''Max Mustermann'')
   \<and> \<not> isl (extract_candidate_data latin1
        \<lparr>ner_pipeline = Some failing_recognizer, summarizer = Some echo_summarizer\<rparr>
        (str ''03.11.2026'') (str ''Max Mustermann''))"
  by code_simp

section \<open>The header fields\<close>

text \<open>
  Claim C8, as the code has it. On an input that is not blank, a profile returned by
  \<open>extract_candidate_data\<close> already carries the four header values of the template
  ("SAP Meister/Techniker", "X|YYY|XXX|Z", the euro sign, "01.04.2025"), which are the
  configuration's \<open>DEFAULT_*\<close> values, and the defaulting layer changes nothing in it.
  On a blank input the empty template leaves job title, procurement profile and start
  date empty, and the defaulting layer fills them. Either way the profile that
  \<open>generate_profile_from_text\<close> returns has the four default values.
\<close>

theorem header_fields:
  "(strip U raw_text \<noteq> [] \<and> extract_candidate_data U self today raw_text = Inr p \<longrightarrow>
      job_title p = str ''SAP Meister/Techniker'' \<and> einkaufskurzprofil p = str ''X|YYY|XXX|Z''
      \<and> stundenverrechnungssatz p = [euro] \<and> starttermin p = str ''01.04.2025''
      \<and> job_title p = DEFAULT_JOB_TITLE \<and> einkaufskurzprofil p = DEFAULT_EKP
      \<and> stundenverrechnungssatz p = DEFAULT_SVS \<and> starttermin p = DEFAULT_START_DATE
      \<and> fill_defaults p = p)
   \<and> (strip U raw_text = [] \<longrightarrow>
       (\<exists>p'. extract_candidate_data U self today raw_text = Inr p'
          \<and> job_title p' = [] \<and> einkaufskurzprofil p' = []
          \<and> stundenverrechnungssatz p' = [euro] \<and> starttermin p' = []
          \<and> job_title (fill_defaults p') = DEFAULT_JOB_TITLE
          \<and> einkaufskurzprofil (fill_defaults p') = DEFAULT_EKP
          \<and> stundenverrechnungssatz (fill_defaults p') = DEFAULT_SVS
          \<and> starttermin (fill_defaults p') = DEFAULT_START_DATE))
   \<and> (generate_profile_from_text U self today raw_text references certificates = Inr q \<longrightarrow>
        job_title q = DEFAULT_JOB_TITLE \<and> einkaufskurzprofil q = DEFAULT_EKP
        \<and> stundenverrechnungssatz q = DEFAULT_SVS \<and> starttermin q = DEFAULT_START_DATE)"
proof -
  have ne: "str ''SAP Meister/Techniker'' \<noteq> []" "str ''X|YYY|XXX|Z'' \<noteq> []" "str ''01.04.2025'' \<noteq> []"
    by (simp_all add: str_def)
  have a: "job_title p = str ''SAP Meister/Techniker'' \<and> einkaufskurzprofil p = str ''X|YYY|XXX|Z''
      \<and> stundenverrechnungssatz p = [euro] \<and> starttermin p = str ''01.04.2025''"
    if "strip U raw_text \<noteq> []" "extract_candidate_data U self today raw_text = Inr p" for p
    using that
    by (auto simp: extract_candidate_data_def Let_def strip_Nil split: if_splits sum.splits prod.splits)
  have a': "fill_defaults p = p"
    if "strip U raw_text \<noteq> []" "extract_candidate_data U self today raw_text = Inr p" for p
    using a [OF that] ne by (simp add: fill_defaults_def Let_def)
  have b: "strip U raw_text = [] \<Longrightarrow> extract_candidate_data U self today raw_text = Inr get_empty_template"
    by (simp add: extract_candidate_data_def)
  have b': "job_title (fill_defaults get_empty_template) = DEFAULT_JOB_TITLE
          \<and> einkaufskurzprofil (fill_defaults get_empty_template) = DEFAULT_EKP
          \<and> stundenverrechnungssatz (fill_defaults get_empty_template) = DEFAULT_SVS
          \<and> starttermin (fill_defaults get_empty_template) = DEFAULT_START_DATE"
    by (simp add: fill_defaults_def get_empty_template_def Let_def DEFAULT_SVS_def)
  have c: "job_title q = DEFAULT_JOB_TITLE \<and> einkaufskurzprofil q = DEFAULT_EKP
        \<and> stundenverrechnungssatz q = DEFAULT_SVS \<and> starttermin q = DEFAULT_START_DATE"
    if g: "generate_profile_from_text U self today raw_text references certificates = Inr q"
  proof (cases "strip U raw_text = []")
    case True
    with g b b' show ?thesis
      by (auto simp: generate_profile_from_text_def Let_def profile.defs app_profile.defs)
  next
    case False
    from g obtain p where p: "extract_candidate_data U self today raw_text = Inr p"
      by (auto simp: generate_profile_from_text_def split: sum.splits)
    from a [OF False p] a' [OF False p] g p show ?thesis
      by (auto simp: generate_profile_from_text_def Let_def profile.defs app_profile.defs
          DEFAULT_JOB_TITLE_def DEFAULT_EKP_def DEFAULT_SVS_def DEFAULT_START_DATE_def)
  qed
  show ?thesis
    using a a' b b' c
    by (auto simp: get_empty_template_def DEFAULT_JOB_TITLE_def DEFAULT_EKP_def DEFAULT_SVS_def DEFAULT_START_DATE_def)
qed

theorem header_fields_witness:
  "strip latin1 (str ''Max'') \<noteq> []
   \<and> job_title (projr (extract_candidate_data latin1
        \<lparr>ner_pipeline = Some silent_recognizer, summarizer = Some echo_summarizer\<rparr>
        (str ''03.11.2026'') (str ''Max''))) = str ''SAP Meister/Techniker''
   \<and> strip latin1 [32] = []
   \<and> job_title (projr (extract_candidate_data latin1
        \<lparr>ner_pipeline = Some silent_recognizer, summarizer = Some echo_summarizer\<rparr>
        (str ''03.11.2026'') [32])) = []"
proof -
  have a: "strip latin1 (str ''Max'') \<noteq> []"
    by code_simp
  have b: "extract_candidate_data latin1
        \<lparr>ner_pipeline = Some silent_recognizer, summarizer = Some echo_summarizer\<rparr>
        (str ''03.11.2026'') (str ''Max'')
      = Inr (projr (extract_candidate_data latin1
        \<lparr>ner_pipeline = Some silent_recognizer, summarizer = Some echo_summarizer\<rparr>
        (str ''03.11.2026'') (str ''Max'')))"
    by code_simp
  have c: "strip latin1 [32] = []"
    by code_simp
  from header_fields [of latin1 "str ''Max''"
      "\<lparr>ner_pipeline = Some silent_recognizer, summarizer = Some echo_summarizer\<rparr>" "str ''03.11.2026''"
      "projr (extract_candidate_data latin1
        \<lparr>ner_pipeline = Some silent_recognizer, summarizer = Some echo_summarizer\<rparr>
        (str ''03.11.2026'') (str ''Max''))"] a b
  have d: "job_title (projr (extract_candidate_data latin1
        \<lparr>ner_pipeline = Some silent_recognizer, summarizer = Some echo_summarizer\<rparr>
        (str ''03.11.2026'') (str ''Max''))) = str ''SAP Meister/Techniker''"
    by simp
  from mp [OF header_fields [of latin1 "[32]"
      "\<lparr>ner_pipeline = Some silent_recognizer, summarizer = Some echo_summarizer\<rparr>" "str ''03.11.2026''",
      THEN conjunct2, THEN conjunct1] c]
  obtain p' where "extract_candidate_data latin1
        \<lparr>ner_pipeline = Some silent_recognizer, summarizer = Some echo_summarizer\<rparr>
        (str ''03.11.2026'') [32] = Inr p'" and "job_title p' = []"
    by blast
  then have e: "job_title (projr (extract_candidate_data latin1
        \<lparr>ner_pipeline = Some silent_recognizer, summarizer = Some echo_summarizer\<rparr>
        (str ''03.11.2026'') [32])) = []"
    by simp
  from a c d e show ?thesis by simp
qed

text \<open>
  Claim C8 as it is worded fails: on a non-empty input the job title that
  \<open>extract_candidate_data\<close> itself returns is not empty.
\<close>

theorem header_fields_counterexample:
  "map_sum id job_title (extract_candidate_data latin1
       \<lparr>ner_pipeline = Some silent_recognizer, summarizer = Some echo_summarizer\<rparr>
       (str ''03.11.2026'') (str ''Max Mustermann''))
     = Inr (str ''SAP Meister/Techniker'')
   \<and> str ''SAP Meister/Techniker'' \<noteq> []"
  by code_simp

end
